theory Spec2Isabelle
  imports Main "HOL-Library.Code_Target_Nat"
begin

section \<open>Oracle-text tokenizer, vocabulary and sliding windows\<close>

text \<open>
  A shallow embedding of the notebook \<^verbatim>\<open>mtg_oracle_text.ipynb\<close>. A Python \<^verbatim>\<open>str\<close> is the
  list of its Unicode code points, and the methods \<^verbatim>\<open>str.isspace\<close>, \<^verbatim>\<open>str.isalnum\<close>,
  \<^verbatim>\<open>str.isupper\<close> and \<^verbatim>\<open>str.lower\<close> are those of CPython 3.11, whose Unicode database
  (version 14.0.0) is written out as tables. Python's \<^verbatim>\<open>int\<close> is \<^typ>\<open>int\<close>. An exception is
  a value \<^term>\<open>Inl err\<close> of the result.
\<close>

subsection \<open>Code points\<close>

text \<open>
  A code point is a natural number, and a Python \<^verbatim>\<open>str\<close> is the list of its code points,
  so \<^term>\<open>length\<close> is Python's \<^verbatim>\<open>len\<close>. A literal is written through \<open>str_of\<close>, which
  gives each character its code point.
\<close>

type_synonym codepoint = nat

type_synonym str = "codepoint list"

definition str_of :: "string \<Rightarrow> str" where
  "str_of s = map of_char s"

subsection \<open>Exceptions\<close>

datatype py_error = ValueError | IndexError | KeyError str

subsection \<open>Sliding windows\<close>

text \<open>
  \<^verbatim>\<open>it = iter(seq); list(islice(it, n))\<close>: \<^verbatim>\<open>islice\<close> raises \<^verbatim>\<open>ValueError\<close> (``Stop argument
  for islice() must be None or an integer: 0 <= x <= sys.maxsize'') for a stop that is
  negative or above \<^verbatim>\<open>sys.maxsize\<close>; otherwise it consumes the first \<open>n\<close> items of the
  iterator (all of them when there are fewer) and leaves the rest in \<open>it\<close>. The pair is
  (items taken, items left). The width is an \<^verbatim>\<open>int\<close>, as annotated. \<^verbatim>\<open>sys.maxsize\<close> is a
  constant of the platform (\<open>2\<^sup>6\<^sup>3 - 1\<close> on a 64-bit CPython) and is the parameter
  \<open>maxsize\<close>; a Python list has at most \<^verbatim>\<open>sys.maxsize\<close> items.
\<close>

definition islice :: "int \<Rightarrow> 'a list \<Rightarrow> int \<Rightarrow> py_error + ('a list \<times> 'a list)" where
  "islice maxsize it n =
     (if n < 0 \<or> maxsize < n then Inl ValueError
      else Inr (take (nat n) it, drop (nat n) it))"

text \<open>
  \<^verbatim>\<open>for e in it: result.append(result[-1][1:] + [e])\<close>. \<^verbatim>\<open>result[-1]\<close> raises
  \<^verbatim>\<open>IndexError\<close> on an empty list; \<^verbatim>\<open>w[1:]\<close> is \<^term>\<open>tl w\<close>, also for the empty \<open>w\<close>.
\<close>

fun windows_loop :: "int list \<Rightarrow> int list list \<Rightarrow> py_error + int list list" where
  "windows_loop [] result = Inr result"
| "windows_loop (e # it) result =
     (if result = [] then Inl IndexError
      else windows_loop it (result @ [tl (last result) @ [e]]))"

definition windows :: "int \<Rightarrow> int list \<Rightarrow> int \<Rightarrow> py_error + int list list" where
  "windows maxsize seq n =
     (case islice maxsize seq n of
        Inl err \<Rightarrow> Inl err
      | Inr (first, it) \<Rightarrow> windows_loop it [first])"

subsection \<open>Character classes\<close>

text \<open>
  The character classes are those of the Unicode database of CPython 3.11 (Unicode
  14.0.0), each as the sorted list of its maximal ranges of code points, both ends
  included. Every list comes in two parts, the code points below 256 and the others, and
  a long list is written in blocks of 32 ranges.
\<close>

fun in_ranges :: "(nat \<times> nat) list \<Rightarrow> codepoint \<Rightarrow> bool" where
  "in_ranges [] k = False"
| "in_ranges ((lo, hi) # rs) k = (if lo \<le> k \<and> k \<le> hi then True else in_ranges rs k)"

text \<open>\<^verbatim>\<open>c.isspace()\<close>.\<close>

definition isspace_latin1 :: "(nat \<times> nat) list" where
  "isspace_latin1 =
     [(9, 13), (28, 32), (133, 133), (160, 160)]"

definition isspace_above :: "(nat \<times> nat) list" where
  "isspace_above =
     [(5760, 5760), (8192, 8202), (8232, 8233), (8239, 8239), (8287, 8287), (12288, 12288)]"

definition isspace :: "codepoint \<Rightarrow> bool" where
  "isspace c = in_ranges (isspace_latin1 @ isspace_above) c"

text \<open>\<^verbatim>\<open>c.isalnum()\<close>.\<close>

definition isalnum_latin1 :: "(nat \<times> nat) list" where
  "isalnum_latin1 =
     [(48, 57), (65, 90), (97, 122), (170, 170), (178, 179), (181, 181), (185, 186),
      (188, 190), (192, 214), (216, 246), (248, 255)]"

definition isalnum_above_1 :: "(nat \<times> nat) list" where
  "isalnum_above_1 =
     [(256, 705), (710, 721), (736, 740), (748, 748), (750, 750), (880, 884), (886, 887),
      (890, 893), (895, 895), (902, 902), (904, 906), (908, 908), (910, 929), (931, 1013),
      (1015, 1153), (1162, 1327), (1329, 1366), (1369, 1369), (1376, 1416), (1488, 1514), (1519, 1522),
      (1568, 1610), (1632, 1641), (1646, 1647), (1649, 1747), (1749, 1749), (1765, 1766), (1774, 1788),
      (1791, 1791), (1808, 1808), (1810, 1839), (1869, 1957)]"

definition isalnum_above_2 :: "(nat \<times> nat) list" where
  "isalnum_above_2 =
     [(1969, 1969), (1984, 2026), (2036, 2037), (2042, 2042), (2048, 2069), (2074, 2074), (2084, 2084),
      (2088, 2088), (2112, 2136), (2144, 2154), (2160, 2183), (2185, 2190), (2208, 2249), (2308, 2361),
      (2365, 2365), (2384, 2384), (2392, 2401), (2406, 2415), (2417, 2432), (2437, 2444), (2447, 2448),
      (2451, 2472), (2474, 2480), (2482, 2482), (2486, 2489), (2493, 2493), (2510, 2510), (2524, 2525),
      (2527, 2529), (2534, 2545), (2548, 2553), (2556, 2556)]"

definition isalnum_above_3 :: "(nat \<times> nat) list" where
  "isalnum_above_3 =
     [(2565, 2570), (2575, 2576), (2579, 2600), (2602, 2608), (2610, 2611), (2613, 2614), (2616, 2617),
      (2649, 2652), (2654, 2654), (2662, 2671), (2674, 2676), (2693, 2701), (2703, 2705), (2707, 2728),
      (2730, 2736), (2738, 2739), (2741, 2745), (2749, 2749), (2768, 2768), (2784, 2785), (2790, 2799),
      (2809, 2809), (2821, 2828), (2831, 2832), (2835, 2856), (2858, 2864), (2866, 2867), (2869, 2873),
      (2877, 2877), (2908, 2909), (2911, 2913), (2918, 2927)]"

definition isalnum_above_4 :: "(nat \<times> nat) list" where
  "isalnum_above_4 =
     [(2929, 2935), (2947, 2947), (2949, 2954), (2958, 2960), (2962, 2965), (2969, 2970), (2972, 2972),
      (2974, 2975), (2979, 2980), (2984, 2986), (2990, 3001), (3024, 3024), (3046, 3058), (3077, 3084),
      (3086, 3088), (3090, 3112), (3114, 3129), (3133, 3133), (3160, 3162), (3165, 3165), (3168, 3169),
      (3174, 3183), (3192, 3198), (3200, 3200), (3205, 3212), (3214, 3216), (3218, 3240), (3242, 3251),
      (3253, 3257), (3261, 3261), (3293, 3294), (3296, 3297)]"

definition isalnum_above_5 :: "(nat \<times> nat) list" where
  "isalnum_above_5 =
     [(3302, 3311), (3313, 3314), (3332, 3340), (3342, 3344), (3346, 3386), (3389, 3389), (3406, 3406),
      (3412, 3414), (3416, 3425), (3430, 3448), (3450, 3455), (3461, 3478), (3482, 3505), (3507, 3515),
      (3517, 3517), (3520, 3526), (3558, 3567), (3585, 3632), (3634, 3635), (3648, 3654), (3664, 3673),
      (3713, 3714), (3716, 3716), (3718, 3722), (3724, 3747), (3749, 3749), (3751, 3760), (3762, 3763),
      (3773, 3773), (3776, 3780), (3782, 3782), (3792, 3801)]"

definition isalnum_above_6 :: "(nat \<times> nat) list" where
  "isalnum_above_6 =
     [(3804, 3807), (3840, 3840), (3872, 3891), (3904, 3911), (3913, 3948), (3976, 3980), (4096, 4138),
      (4159, 4169), (4176, 4181), (4186, 4189), (4193, 4193), (4197, 4198), (4206, 4208), (4213, 4225),
      (4238, 4238), (4240, 4249), (4256, 4293), (4295, 4295), (4301, 4301), (4304, 4346), (4348, 4680),
      (4682, 4685), (4688, 4694), (4696, 4696), (4698, 4701), (4704, 4744), (4746, 4749), (4752, 4784),
      (4786, 4789), (4792, 4798), (4800, 4800), (4802, 4805)]"

definition isalnum_above_7 :: "(nat \<times> nat) list" where
  "isalnum_above_7 =
     [(4808, 4822), (4824, 4880), (4882, 4885), (4888, 4954), (4969, 4988), (4992, 5007), (5024, 5109),
      (5112, 5117), (5121, 5740), (5743, 5759), (5761, 5786), (5792, 5866), (5870, 5880), (5888, 5905),
      (5919, 5937), (5952, 5969), (5984, 5996), (5998, 6000), (6016, 6067), (6103, 6103), (6108, 6108),
      (6112, 6121), (6128, 6137), (6160, 6169), (6176, 6264), (6272, 6276), (6279, 6312), (6314, 6314),
      (6320, 6389), (6400, 6430), (6470, 6509), (6512, 6516)]"

definition isalnum_above_8 :: "(nat \<times> nat) list" where
  "isalnum_above_8 =
     [(6528, 6571), (6576, 6601), (6608, 6618), (6656, 6678), (6688, 6740), (6784, 6793), (6800, 6809),
      (6823, 6823), (6917, 6963), (6981, 6988), (6992, 7001), (7043, 7072), (7086, 7141), (7168, 7203),
      (7232, 7241), (7245, 7293), (7296, 7304), (7312, 7354), (7357, 7359), (7401, 7404), (7406, 7411),
      (7413, 7414), (7418, 7418), (7424, 7615), (7680, 7957), (7960, 7965), (7968, 8005), (8008, 8013),
      (8016, 8023), (8025, 8025), (8027, 8027), (8029, 8029)]"

definition isalnum_above_9 :: "(nat \<times> nat) list" where
  "isalnum_above_9 =
     [(8031, 8061), (8064, 8116), (8118, 8124), (8126, 8126), (8130, 8132), (8134, 8140), (8144, 8147),
      (8150, 8155), (8160, 8172), (8178, 8180), (8182, 8188), (8304, 8305), (8308, 8313), (8319, 8329),
      (8336, 8348), (8450, 8450), (8455, 8455), (8458, 8467), (8469, 8469), (8473, 8477), (8484, 8484),
      (8486, 8486), (8488, 8488), (8490, 8493), (8495, 8505), (8508, 8511), (8517, 8521), (8526, 8526),
      (8528, 8585), (9312, 9371), (9450, 9471), (10102, 10131)]"

definition isalnum_above_10 :: "(nat \<times> nat) list" where
  "isalnum_above_10 =
     [(11264, 11492), (11499, 11502), (11506, 11507), (11517, 11517), (11520, 11557), (11559, 11559), (11565, 11565),
      (11568, 11623), (11631, 11631), (11648, 11670), (11680, 11686), (11688, 11694), (11696, 11702), (11704, 11710),
      (11712, 11718), (11720, 11726), (11728, 11734), (11736, 11742), (11823, 11823), (12293, 12295), (12321, 12329),
      (12337, 12341), (12344, 12348), (12353, 12438), (12445, 12447), (12449, 12538), (12540, 12543), (12549, 12591),
      (12593, 12686), (12690, 12693), (12704, 12735), (12784, 12799)]"

definition isalnum_above_11 :: "(nat \<times> nat) list" where
  "isalnum_above_11 =
     [(12832, 12841), (12872, 12879), (12881, 12895), (12928, 12937), (12977, 12991), (13312, 19903), (19968, 42124),
      (42192, 42237), (42240, 42508), (42512, 42539), (42560, 42606), (42623, 42653), (42656, 42735), (42775, 42783),
      (42786, 42888), (42891, 42954), (42960, 42961), (42963, 42963), (42965, 42969), (42994, 43009), (43011, 43013),
      (43015, 43018), (43020, 43042), (43056, 43061), (43072, 43123), (43138, 43187), (43216, 43225), (43250, 43255),
      (43259, 43259), (43261, 43262), (43264, 43301), (43312, 43334)]"

definition isalnum_above_12 :: "(nat \<times> nat) list" where
  "isalnum_above_12 =
     [(43360, 43388), (43396, 43442), (43471, 43481), (43488, 43492), (43494, 43518), (43520, 43560), (43584, 43586),
      (43588, 43595), (43600, 43609), (43616, 43638), (43642, 43642), (43646, 43695), (43697, 43697), (43701, 43702),
      (43705, 43709), (43712, 43712), (43714, 43714), (43739, 43741), (43744, 43754), (43762, 43764), (43777, 43782),
      (43785, 43790), (43793, 43798), (43808, 43814), (43816, 43822), (43824, 43866), (43868, 43881), (43888, 44002),
      (44016, 44025), (44032, 55203), (55216, 55238), (55243, 55291)]"

definition isalnum_above_13 :: "(nat \<times> nat) list" where
  "isalnum_above_13 =
     [(63744, 64109), (64112, 64217), (64256, 64262), (64275, 64279), (64285, 64285), (64287, 64296), (64298, 64310),
      (64312, 64316), (64318, 64318), (64320, 64321), (64323, 64324), (64326, 64433), (64467, 64829), (64848, 64911),
      (64914, 64967), (65008, 65019), (65136, 65140), (65142, 65276), (65296, 65305), (65313, 65338), (65345, 65370),
      (65382, 65470), (65474, 65479), (65482, 65487), (65490, 65495), (65498, 65500), (65536, 65547), (65549, 65574),
      (65576, 65594), (65596, 65597), (65599, 65613), (65616, 65629)]"

definition isalnum_above_14 :: "(nat \<times> nat) list" where
  "isalnum_above_14 =
     [(65664, 65786), (65799, 65843), (65856, 65912), (65930, 65931), (66176, 66204), (66208, 66256), (66273, 66299),
      (66304, 66339), (66349, 66378), (66384, 66421), (66432, 66461), (66464, 66499), (66504, 66511), (66513, 66517),
      (66560, 66717), (66720, 66729), (66736, 66771), (66776, 66811), (66816, 66855), (66864, 66915), (66928, 66938),
      (66940, 66954), (66956, 66962), (66964, 66965), (66967, 66977), (66979, 66993), (66995, 67001), (67003, 67004),
      (67072, 67382), (67392, 67413), (67424, 67431), (67456, 67461)]"

definition isalnum_above_15 :: "(nat \<times> nat) list" where
  "isalnum_above_15 =
     [(67463, 67504), (67506, 67514), (67584, 67589), (67592, 67592), (67594, 67637), (67639, 67640), (67644, 67644),
      (67647, 67669), (67672, 67702), (67705, 67742), (67751, 67759), (67808, 67826), (67828, 67829), (67835, 67867),
      (67872, 67897), (67968, 68023), (68028, 68047), (68050, 68096), (68112, 68115), (68117, 68119), (68121, 68149),
      (68160, 68168), (68192, 68222), (68224, 68255), (68288, 68295), (68297, 68324), (68331, 68335), (68352, 68405),
      (68416, 68437), (68440, 68466), (68472, 68497), (68521, 68527)]"

definition isalnum_above_16 :: "(nat \<times> nat) list" where
  "isalnum_above_16 =
     [(68608, 68680), (68736, 68786), (68800, 68850), (68858, 68899), (68912, 68921), (69216, 69246), (69248, 69289),
      (69296, 69297), (69376, 69415), (69424, 69445), (69457, 69460), (69488, 69505), (69552, 69579), (69600, 69622),
      (69635, 69687), (69714, 69743), (69745, 69746), (69749, 69749), (69763, 69807), (69840, 69864), (69872, 69881),
      (69891, 69926), (69942, 69951), (69956, 69956), (69959, 69959), (69968, 70002), (70006, 70006), (70019, 70066),
      (70081, 70084), (70096, 70106), (70108, 70108), (70113, 70132)]"

definition isalnum_above_17 :: "(nat \<times> nat) list" where
  "isalnum_above_17 =
     [(70144, 70161), (70163, 70187), (70272, 70278), (70280, 70280), (70282, 70285), (70287, 70301), (70303, 70312),
      (70320, 70366), (70384, 70393), (70405, 70412), (70415, 70416), (70419, 70440), (70442, 70448), (70450, 70451),
      (70453, 70457), (70461, 70461), (70480, 70480), (70493, 70497), (70656, 70708), (70727, 70730), (70736, 70745),
      (70751, 70753), (70784, 70831), (70852, 70853), (70855, 70855), (70864, 70873), (71040, 71086), (71128, 71131),
      (71168, 71215), (71236, 71236), (71248, 71257), (71296, 71338)]"

definition isalnum_above_18 :: "(nat \<times> nat) list" where
  "isalnum_above_18 =
     [(71352, 71352), (71360, 71369), (71424, 71450), (71472, 71483), (71488, 71494), (71680, 71723), (71840, 71922),
      (71935, 71942), (71945, 71945), (71948, 71955), (71957, 71958), (71960, 71983), (71999, 71999), (72001, 72001),
      (72016, 72025), (72096, 72103), (72106, 72144), (72161, 72161), (72163, 72163), (72192, 72192), (72203, 72242),
      (72250, 72250), (72272, 72272), (72284, 72329), (72349, 72349), (72368, 72440), (72704, 72712), (72714, 72750),
      (72768, 72768), (72784, 72812), (72818, 72847), (72960, 72966)]"

definition isalnum_above_19 :: "(nat \<times> nat) list" where
  "isalnum_above_19 =
     [(72968, 72969), (72971, 73008), (73030, 73030), (73040, 73049), (73056, 73061), (73063, 73064), (73066, 73097),
      (73112, 73112), (73120, 73129), (73440, 73458), (73648, 73648), (73664, 73684), (73728, 74649), (74752, 74862),
      (74880, 75075), (77712, 77808), (77824, 78894), (82944, 83526), (92160, 92728), (92736, 92766), (92768, 92777),
      (92784, 92862), (92864, 92873), (92880, 92909), (92928, 92975), (92992, 92995), (93008, 93017), (93019, 93025),
      (93027, 93047), (93053, 93071), (93760, 93846), (93952, 94026)]"

definition isalnum_above_20 :: "(nat \<times> nat) list" where
  "isalnum_above_20 =
     [(94032, 94032), (94099, 94111), (94176, 94177), (94179, 94179), (94208, 100343), (100352, 101589), (101632, 101640),
      (110576, 110579), (110581, 110587), (110589, 110590), (110592, 110882), (110928, 110930), (110948, 110951), (110960, 111355),
      (113664, 113770), (113776, 113788), (113792, 113800), (113808, 113817), (119520, 119539), (119648, 119672), (119808, 119892),
      (119894, 119964), (119966, 119967), (119970, 119970), (119973, 119974), (119977, 119980), (119982, 119993), (119995, 119995),
      (119997, 120003), (120005, 120069), (120071, 120074), (120077, 120084)]"

definition isalnum_above_21 :: "(nat \<times> nat) list" where
  "isalnum_above_21 =
     [(120086, 120092), (120094, 120121), (120123, 120126), (120128, 120132), (120134, 120134), (120138, 120144), (120146, 120485),
      (120488, 120512), (120514, 120538), (120540, 120570), (120572, 120596), (120598, 120628), (120630, 120654), (120656, 120686),
      (120688, 120712), (120714, 120744), (120746, 120770), (120772, 120779), (120782, 120831), (122624, 122654), (123136, 123180),
      (123191, 123197), (123200, 123209), (123214, 123214), (123536, 123565), (123584, 123627), (123632, 123641), (124896, 124902),
      (124904, 124907), (124909, 124910), (124912, 124926), (124928, 125124)]"

definition isalnum_above_22 :: "(nat \<times> nat) list" where
  "isalnum_above_22 =
     [(125127, 125135), (125184, 125251), (125259, 125259), (125264, 125273), (126065, 126123), (126125, 126127), (126129, 126132),
      (126209, 126253), (126255, 126269), (126464, 126467), (126469, 126495), (126497, 126498), (126500, 126500), (126503, 126503),
      (126505, 126514), (126516, 126519), (126521, 126521), (126523, 126523), (126530, 126530), (126535, 126535), (126537, 126537),
      (126539, 126539), (126541, 126543), (126545, 126546), (126548, 126548), (126551, 126551), (126553, 126553), (126555, 126555),
      (126557, 126557), (126559, 126559), (126561, 126562), (126564, 126564)]"

definition isalnum_above_23 :: "(nat \<times> nat) list" where
  "isalnum_above_23 =
     [(126567, 126570), (126572, 126578), (126580, 126583), (126585, 126588), (126590, 126590), (126592, 126601), (126603, 126619),
      (126625, 126627), (126629, 126633), (126635, 126651), (127232, 127244), (130032, 130041), (131072, 173791), (173824, 177976),
      (177984, 178205), (178208, 183969), (183984, 191456), (194560, 195101), (196608, 201546)]"

definition isalnum_above :: "(nat \<times> nat) list" where
  "isalnum_above =
     isalnum_above_1 @ isalnum_above_2 @ isalnum_above_3 @ isalnum_above_4 @
     isalnum_above_5 @ isalnum_above_6 @ isalnum_above_7 @ isalnum_above_8 @
     isalnum_above_9 @ isalnum_above_10 @ isalnum_above_11 @ isalnum_above_12 @
     isalnum_above_13 @ isalnum_above_14 @ isalnum_above_15 @ isalnum_above_16 @
     isalnum_above_17 @ isalnum_above_18 @ isalnum_above_19 @ isalnum_above_20 @
     isalnum_above_21 @ isalnum_above_22 @ isalnum_above_23"

definition isalnum :: "codepoint \<Rightarrow> bool" where
  "isalnum c = in_ranges (isalnum_latin1 @ isalnum_above) c"

text \<open>\<^verbatim>\<open>c.isupper()\<close>, the uppercase characters.\<close>

definition isupper_latin1 :: "(nat \<times> nat) list" where
  "isupper_latin1 =
     [(65, 90), (192, 214), (216, 222)]"

definition isupper_above_1 :: "(nat \<times> nat) list" where
  "isupper_above_1 =
     [(256, 256), (258, 258), (260, 260), (262, 262), (264, 264), (266, 266), (268, 268),
      (270, 270), (272, 272), (274, 274), (276, 276), (278, 278), (280, 280), (282, 282),
      (284, 284), (286, 286), (288, 288), (290, 290), (292, 292), (294, 294), (296, 296),
      (298, 298), (300, 300), (302, 302), (304, 304), (306, 306), (308, 308), (310, 310),
      (313, 313), (315, 315), (317, 317), (319, 319)]"

definition isupper_above_2 :: "(nat \<times> nat) list" where
  "isupper_above_2 =
     [(321, 321), (323, 323), (325, 325), (327, 327), (330, 330), (332, 332), (334, 334),
      (336, 336), (338, 338), (340, 340), (342, 342), (344, 344), (346, 346), (348, 348),
      (350, 350), (352, 352), (354, 354), (356, 356), (358, 358), (360, 360), (362, 362),
      (364, 364), (366, 366), (368, 368), (370, 370), (372, 372), (374, 374), (376, 377),
      (379, 379), (381, 381), (385, 386), (388, 388)]"

definition isupper_above_3 :: "(nat \<times> nat) list" where
  "isupper_above_3 =
     [(390, 391), (393, 395), (398, 401), (403, 404), (406, 408), (412, 413), (415, 416),
      (418, 418), (420, 420), (422, 423), (425, 425), (428, 428), (430, 431), (433, 435),
      (437, 437), (439, 440), (444, 444), (452, 452), (455, 455), (458, 458), (461, 461),
      (463, 463), (465, 465), (467, 467), (469, 469), (471, 471), (473, 473), (475, 475),
      (478, 478), (480, 480), (482, 482), (484, 484)]"

definition isupper_above_4 :: "(nat \<times> nat) list" where
  "isupper_above_4 =
     [(486, 486), (488, 488), (490, 490), (492, 492), (494, 494), (497, 497), (500, 500),
      (502, 504), (506, 506), (508, 508), (510, 510), (512, 512), (514, 514), (516, 516),
      (518, 518), (520, 520), (522, 522), (524, 524), (526, 526), (528, 528), (530, 530),
      (532, 532), (534, 534), (536, 536), (538, 538), (540, 540), (542, 542), (544, 544),
      (546, 546), (548, 548), (550, 550), (552, 552)]"

definition isupper_above_5 :: "(nat \<times> nat) list" where
  "isupper_above_5 =
     [(554, 554), (556, 556), (558, 558), (560, 560), (562, 562), (570, 571), (573, 574),
      (577, 577), (579, 582), (584, 584), (586, 586), (588, 588), (590, 590), (880, 880),
      (882, 882), (886, 886), (895, 895), (902, 902), (904, 906), (908, 908), (910, 911),
      (913, 929), (931, 939), (975, 975), (978, 980), (984, 984), (986, 986), (988, 988),
      (990, 990), (992, 992), (994, 994), (996, 996)]"

definition isupper_above_6 :: "(nat \<times> nat) list" where
  "isupper_above_6 =
     [(998, 998), (1000, 1000), (1002, 1002), (1004, 1004), (1006, 1006), (1012, 1012), (1015, 1015),
      (1017, 1018), (1021, 1071), (1120, 1120), (1122, 1122), (1124, 1124), (1126, 1126), (1128, 1128),
      (1130, 1130), (1132, 1132), (1134, 1134), (1136, 1136), (1138, 1138), (1140, 1140), (1142, 1142),
      (1144, 1144), (1146, 1146), (1148, 1148), (1150, 1150), (1152, 1152), (1162, 1162), (1164, 1164),
      (1166, 1166), (1168, 1168), (1170, 1170), (1172, 1172)]"

definition isupper_above_7 :: "(nat \<times> nat) list" where
  "isupper_above_7 =
     [(1174, 1174), (1176, 1176), (1178, 1178), (1180, 1180), (1182, 1182), (1184, 1184), (1186, 1186),
      (1188, 1188), (1190, 1190), (1192, 1192), (1194, 1194), (1196, 1196), (1198, 1198), (1200, 1200),
      (1202, 1202), (1204, 1204), (1206, 1206), (1208, 1208), (1210, 1210), (1212, 1212), (1214, 1214),
      (1216, 1217), (1219, 1219), (1221, 1221), (1223, 1223), (1225, 1225), (1227, 1227), (1229, 1229),
      (1232, 1232), (1234, 1234), (1236, 1236), (1238, 1238)]"

definition isupper_above_8 :: "(nat \<times> nat) list" where
  "isupper_above_8 =
     [(1240, 1240), (1242, 1242), (1244, 1244), (1246, 1246), (1248, 1248), (1250, 1250), (1252, 1252),
      (1254, 1254), (1256, 1256), (1258, 1258), (1260, 1260), (1262, 1262), (1264, 1264), (1266, 1266),
      (1268, 1268), (1270, 1270), (1272, 1272), (1274, 1274), (1276, 1276), (1278, 1278), (1280, 1280),
      (1282, 1282), (1284, 1284), (1286, 1286), (1288, 1288), (1290, 1290), (1292, 1292), (1294, 1294),
      (1296, 1296), (1298, 1298), (1300, 1300), (1302, 1302)]"

definition isupper_above_9 :: "(nat \<times> nat) list" where
  "isupper_above_9 =
     [(1304, 1304), (1306, 1306), (1308, 1308), (1310, 1310), (1312, 1312), (1314, 1314), (1316, 1316),
      (1318, 1318), (1320, 1320), (1322, 1322), (1324, 1324), (1326, 1326), (1329, 1366), (4256, 4293),
      (4295, 4295), (4301, 4301), (5024, 5109), (7312, 7354), (7357, 7359), (7680, 7680), (7682, 7682),
      (7684, 7684), (7686, 7686), (7688, 7688), (7690, 7690), (7692, 7692), (7694, 7694), (7696, 7696),
      (7698, 7698), (7700, 7700), (7702, 7702), (7704, 7704)]"

definition isupper_above_10 :: "(nat \<times> nat) list" where
  "isupper_above_10 =
     [(7706, 7706), (7708, 7708), (7710, 7710), (7712, 7712), (7714, 7714), (7716, 7716), (7718, 7718),
      (7720, 7720), (7722, 7722), (7724, 7724), (7726, 7726), (7728, 7728), (7730, 7730), (7732, 7732),
      (7734, 7734), (7736, 7736), (7738, 7738), (7740, 7740), (7742, 7742), (7744, 7744), (7746, 7746),
      (7748, 7748), (7750, 7750), (7752, 7752), (7754, 7754), (7756, 7756), (7758, 7758), (7760, 7760),
      (7762, 7762), (7764, 7764), (7766, 7766), (7768, 7768)]"

definition isupper_above_11 :: "(nat \<times> nat) list" where
  "isupper_above_11 =
     [(7770, 7770), (7772, 7772), (7774, 7774), (7776, 7776), (7778, 7778), (7780, 7780), (7782, 7782),
      (7784, 7784), (7786, 7786), (7788, 7788), (7790, 7790), (7792, 7792), (7794, 7794), (7796, 7796),
      (7798, 7798), (7800, 7800), (7802, 7802), (7804, 7804), (7806, 7806), (7808, 7808), (7810, 7810),
      (7812, 7812), (7814, 7814), (7816, 7816), (7818, 7818), (7820, 7820), (7822, 7822), (7824, 7824),
      (7826, 7826), (7828, 7828), (7838, 7838), (7840, 7840)]"

definition isupper_above_12 :: "(nat \<times> nat) list" where
  "isupper_above_12 =
     [(7842, 7842), (7844, 7844), (7846, 7846), (7848, 7848), (7850, 7850), (7852, 7852), (7854, 7854),
      (7856, 7856), (7858, 7858), (7860, 7860), (7862, 7862), (7864, 7864), (7866, 7866), (7868, 7868),
      (7870, 7870), (7872, 7872), (7874, 7874), (7876, 7876), (7878, 7878), (7880, 7880), (7882, 7882),
      (7884, 7884), (7886, 7886), (7888, 7888), (7890, 7890), (7892, 7892), (7894, 7894), (7896, 7896),
      (7898, 7898), (7900, 7900), (7902, 7902), (7904, 7904)]"

definition isupper_above_13 :: "(nat \<times> nat) list" where
  "isupper_above_13 =
     [(7906, 7906), (7908, 7908), (7910, 7910), (7912, 7912), (7914, 7914), (7916, 7916), (7918, 7918),
      (7920, 7920), (7922, 7922), (7924, 7924), (7926, 7926), (7928, 7928), (7930, 7930), (7932, 7932),
      (7934, 7934), (7944, 7951), (7960, 7965), (7976, 7983), (7992, 7999), (8008, 8013), (8025, 8025),
      (8027, 8027), (8029, 8029), (8031, 8031), (8040, 8047), (8120, 8123), (8136, 8139), (8152, 8155),
      (8168, 8172), (8184, 8187), (8450, 8450), (8455, 8455)]"

definition isupper_above_14 :: "(nat \<times> nat) list" where
  "isupper_above_14 =
     [(8459, 8461), (8464, 8466), (8469, 8469), (8473, 8477), (8484, 8484), (8486, 8486), (8488, 8488),
      (8490, 8493), (8496, 8499), (8510, 8511), (8517, 8517), (8544, 8559), (8579, 8579), (9398, 9423),
      (11264, 11311), (11360, 11360), (11362, 11364), (11367, 11367), (11369, 11369), (11371, 11371), (11373, 11376),
      (11378, 11378), (11381, 11381), (11390, 11392), (11394, 11394), (11396, 11396), (11398, 11398), (11400, 11400),
      (11402, 11402), (11404, 11404), (11406, 11406), (11408, 11408)]"

definition isupper_above_15 :: "(nat \<times> nat) list" where
  "isupper_above_15 =
     [(11410, 11410), (11412, 11412), (11414, 11414), (11416, 11416), (11418, 11418), (11420, 11420), (11422, 11422),
      (11424, 11424), (11426, 11426), (11428, 11428), (11430, 11430), (11432, 11432), (11434, 11434), (11436, 11436),
      (11438, 11438), (11440, 11440), (11442, 11442), (11444, 11444), (11446, 11446), (11448, 11448), (11450, 11450),
      (11452, 11452), (11454, 11454), (11456, 11456), (11458, 11458), (11460, 11460), (11462, 11462), (11464, 11464),
      (11466, 11466), (11468, 11468), (11470, 11470), (11472, 11472)]"

definition isupper_above_16 :: "(nat \<times> nat) list" where
  "isupper_above_16 =
     [(11474, 11474), (11476, 11476), (11478, 11478), (11480, 11480), (11482, 11482), (11484, 11484), (11486, 11486),
      (11488, 11488), (11490, 11490), (11499, 11499), (11501, 11501), (11506, 11506), (42560, 42560), (42562, 42562),
      (42564, 42564), (42566, 42566), (42568, 42568), (42570, 42570), (42572, 42572), (42574, 42574), (42576, 42576),
      (42578, 42578), (42580, 42580), (42582, 42582), (42584, 42584), (42586, 42586), (42588, 42588), (42590, 42590),
      (42592, 42592), (42594, 42594), (42596, 42596), (42598, 42598)]"

definition isupper_above_17 :: "(nat \<times> nat) list" where
  "isupper_above_17 =
     [(42600, 42600), (42602, 42602), (42604, 42604), (42624, 42624), (42626, 42626), (42628, 42628), (42630, 42630),
      (42632, 42632), (42634, 42634), (42636, 42636), (42638, 42638), (42640, 42640), (42642, 42642), (42644, 42644),
      (42646, 42646), (42648, 42648), (42650, 42650), (42786, 42786), (42788, 42788), (42790, 42790), (42792, 42792),
      (42794, 42794), (42796, 42796), (42798, 42798), (42802, 42802), (42804, 42804), (42806, 42806), (42808, 42808),
      (42810, 42810), (42812, 42812), (42814, 42814), (42816, 42816)]"

definition isupper_above_18 :: "(nat \<times> nat) list" where
  "isupper_above_18 =
     [(42818, 42818), (42820, 42820), (42822, 42822), (42824, 42824), (42826, 42826), (42828, 42828), (42830, 42830),
      (42832, 42832), (42834, 42834), (42836, 42836), (42838, 42838), (42840, 42840), (42842, 42842), (42844, 42844),
      (42846, 42846), (42848, 42848), (42850, 42850), (42852, 42852), (42854, 42854), (42856, 42856), (42858, 42858),
      (42860, 42860), (42862, 42862), (42873, 42873), (42875, 42875), (42877, 42878), (42880, 42880), (42882, 42882),
      (42884, 42884), (42886, 42886), (42891, 42891), (42893, 42893)]"

definition isupper_above_19 :: "(nat \<times> nat) list" where
  "isupper_above_19 =
     [(42896, 42896), (42898, 42898), (42902, 42902), (42904, 42904), (42906, 42906), (42908, 42908), (42910, 42910),
      (42912, 42912), (42914, 42914), (42916, 42916), (42918, 42918), (42920, 42920), (42922, 42926), (42928, 42932),
      (42934, 42934), (42936, 42936), (42938, 42938), (42940, 42940), (42942, 42942), (42944, 42944), (42946, 42946),
      (42948, 42951), (42953, 42953), (42960, 42960), (42966, 42966), (42968, 42968), (42997, 42997), (65313, 65338),
      (66560, 66599), (66736, 66771), (66928, 66938), (66940, 66954)]"

definition isupper_above_20 :: "(nat \<times> nat) list" where
  "isupper_above_20 =
     [(66956, 66962), (66964, 66965), (68736, 68786), (71840, 71871), (93760, 93791), (119808, 119833), (119860, 119885),
      (119912, 119937), (119964, 119964), (119966, 119967), (119970, 119970), (119973, 119974), (119977, 119980), (119982, 119989),
      (120016, 120041), (120068, 120069), (120071, 120074), (120077, 120084), (120086, 120092), (120120, 120121), (120123, 120126),
      (120128, 120132), (120134, 120134), (120138, 120144), (120172, 120197), (120224, 120249), (120276, 120301), (120328, 120353),
      (120380, 120405), (120432, 120457), (120488, 120512), (120546, 120570)]"

definition isupper_above_21 :: "(nat \<times> nat) list" where
  "isupper_above_21 =
     [(120604, 120628), (120662, 120686), (120720, 120744), (120778, 120778), (125184, 125217), (127280, 127305), (127312, 127337),
      (127344, 127369)]"

definition isupper_above :: "(nat \<times> nat) list" where
  "isupper_above =
     isupper_above_1 @ isupper_above_2 @ isupper_above_3 @ isupper_above_4 @
     isupper_above_5 @ isupper_above_6 @ isupper_above_7 @ isupper_above_8 @
     isupper_above_9 @ isupper_above_10 @ isupper_above_11 @ isupper_above_12 @
     isupper_above_13 @ isupper_above_14 @ isupper_above_15 @ isupper_above_16 @
     isupper_above_17 @ isupper_above_18 @ isupper_above_19 @ isupper_above_20 @
     isupper_above_21"

definition isupper :: "codepoint \<Rightarrow> bool" where
  "isupper c = in_ranges (isupper_latin1 @ isupper_above) c"

subsection \<open>Lowercasing\<close>

text \<open>
  \<^verbatim>\<open>str.lower\<close> maps each character by the lowercase mapping of the database. An entry
  \<open>(lo, hi, step, target)\<close> of the table says that the code points \<open>lo\<close>, \<open>lo + step\<close>, ...
  up to \<open>hi\<close> map to \<open>target\<close>, \<open>target + step\<close>, ...; a code point in no entry maps to
  itself. The one code point with a longer lowercase form is U+0130, which becomes
  U+0069 U+0307.
\<close>

definition lower_latin1 :: "(nat \<times> nat \<times> nat \<times> nat) list" where
  "lower_latin1 =
     [(65, 90, 1, 97), (192, 214, 1, 224), (216, 222, 1, 248)]"

definition lower_above_1 :: "(nat \<times> nat \<times> nat \<times> nat) list" where
  "lower_above_1 =
     [(256, 302, 2, 257), (306, 310, 2, 307), (313, 327, 2, 314), (330, 374, 2, 331),
      (376, 376, 1, 255), (377, 381, 2, 378), (385, 385, 1, 595), (386, 388, 2, 387),
      (390, 390, 1, 596), (391, 391, 1, 392), (393, 394, 1, 598), (395, 395, 1, 396),
      (398, 398, 1, 477), (399, 399, 1, 601), (400, 400, 1, 603), (401, 401, 1, 402),
      (403, 403, 1, 608), (404, 404, 1, 611), (406, 406, 1, 617), (407, 407, 1, 616),
      (408, 408, 1, 409), (412, 412, 1, 623), (413, 413, 1, 626), (415, 415, 1, 629),
      (416, 420, 2, 417), (422, 422, 1, 640), (423, 423, 1, 424), (425, 425, 1, 643),
      (428, 428, 1, 429), (430, 430, 1, 648), (431, 431, 1, 432), (433, 434, 1, 650)]"

definition lower_above_2 :: "(nat \<times> nat \<times> nat \<times> nat) list" where
  "lower_above_2 =
     [(435, 437, 2, 436), (439, 439, 1, 658), (440, 440, 1, 441), (444, 444, 1, 445),
      (452, 452, 1, 454), (453, 453, 1, 454), (455, 455, 1, 457), (456, 456, 1, 457),
      (458, 458, 1, 460), (459, 475, 2, 460), (478, 494, 2, 479), (497, 497, 1, 499),
      (498, 500, 2, 499), (502, 502, 1, 405), (503, 503, 1, 447), (504, 542, 2, 505),
      (544, 544, 1, 414), (546, 562, 2, 547), (570, 570, 1, 11365), (571, 571, 1, 572),
      (573, 573, 1, 410), (574, 574, 1, 11366), (577, 577, 1, 578), (579, 579, 1, 384),
      (580, 580, 1, 649), (581, 581, 1, 652), (582, 590, 2, 583), (880, 882, 2, 881),
      (886, 886, 1, 887), (895, 895, 1, 1011), (902, 902, 1, 940), (904, 906, 1, 941)]"

definition lower_above_3 :: "(nat \<times> nat \<times> nat \<times> nat) list" where
  "lower_above_3 =
     [(908, 908, 1, 972), (910, 911, 1, 973), (913, 929, 1, 945), (931, 939, 1, 963),
      (975, 975, 1, 983), (984, 1006, 2, 985), (1012, 1012, 1, 952), (1015, 1015, 1, 1016),
      (1017, 1017, 1, 1010), (1018, 1018, 1, 1019), (1021, 1023, 1, 891), (1024, 1039, 1, 1104),
      (1040, 1071, 1, 1072), (1120, 1152, 2, 1121), (1162, 1214, 2, 1163), (1216, 1216, 1, 1231),
      (1217, 1229, 2, 1218), (1232, 1326, 2, 1233), (1329, 1366, 1, 1377), (4256, 4293, 1, 11520),
      (4295, 4295, 1, 11559), (4301, 4301, 1, 11565), (5024, 5103, 1, 43888), (5104, 5109, 1, 5112),
      (7312, 7354, 1, 4304), (7357, 7359, 1, 4349), (7680, 7828, 2, 7681), (7838, 7838, 1, 223),
      (7840, 7934, 2, 7841), (7944, 7951, 1, 7936), (7960, 7965, 1, 7952), (7976, 7983, 1, 7968)]"

definition lower_above_4 :: "(nat \<times> nat \<times> nat \<times> nat) list" where
  "lower_above_4 =
     [(7992, 7999, 1, 7984), (8008, 8013, 1, 8000), (8025, 8031, 2, 8017), (8040, 8047, 1, 8032),
      (8072, 8079, 1, 8064), (8088, 8095, 1, 8080), (8104, 8111, 1, 8096), (8120, 8121, 1, 8112),
      (8122, 8123, 1, 8048), (8124, 8124, 1, 8115), (8136, 8139, 1, 8050), (8140, 8140, 1, 8131),
      (8152, 8153, 1, 8144), (8154, 8155, 1, 8054), (8168, 8169, 1, 8160), (8170, 8171, 1, 8058),
      (8172, 8172, 1, 8165), (8184, 8185, 1, 8056), (8186, 8187, 1, 8060), (8188, 8188, 1, 8179),
      (8486, 8486, 1, 969), (8490, 8490, 1, 107), (8491, 8491, 1, 229), (8498, 8498, 1, 8526),
      (8544, 8559, 1, 8560), (8579, 8579, 1, 8580), (9398, 9423, 1, 9424), (11264, 11311, 1, 11312),
      (11360, 11360, 1, 11361), (11362, 11362, 1, 619), (11363, 11363, 1, 7549), (11364, 11364, 1, 637)]"

definition lower_above_5 :: "(nat \<times> nat \<times> nat \<times> nat) list" where
  "lower_above_5 =
     [(11367, 11371, 2, 11368), (11373, 11373, 1, 593), (11374, 11374, 1, 625), (11375, 11375, 1, 592),
      (11376, 11376, 1, 594), (11378, 11378, 1, 11379), (11381, 11381, 1, 11382), (11390, 11391, 1, 575),
      (11392, 11490, 2, 11393), (11499, 11501, 2, 11500), (11506, 11506, 1, 11507), (42560, 42604, 2, 42561),
      (42624, 42650, 2, 42625), (42786, 42798, 2, 42787), (42802, 42862, 2, 42803), (42873, 42875, 2, 42874),
      (42877, 42877, 1, 7545), (42878, 42886, 2, 42879), (42891, 42891, 1, 42892), (42893, 42893, 1, 613),
      (42896, 42898, 2, 42897), (42902, 42920, 2, 42903), (42922, 42922, 1, 614), (42923, 42923, 1, 604),
      (42924, 42924, 1, 609), (42925, 42925, 1, 620), (42926, 42926, 1, 618), (42928, 42928, 1, 670),
      (42929, 42929, 1, 647), (42930, 42930, 1, 669), (42931, 42931, 1, 43859), (42932, 42946, 2, 42933)]"

definition lower_above_6 :: "(nat \<times> nat \<times> nat \<times> nat) list" where
  "lower_above_6 =
     [(42948, 42948, 1, 42900), (42949, 42949, 1, 642), (42950, 42950, 1, 7566), (42951, 42953, 2, 42952),
      (42960, 42960, 1, 42961), (42966, 42968, 2, 42967), (42997, 42997, 1, 42998), (65313, 65338, 1, 65345),
      (66560, 66599, 1, 66600), (66736, 66771, 1, 66776), (66928, 66938, 1, 66967), (66940, 66954, 1, 66979),
      (66956, 66962, 1, 66995), (66964, 66965, 1, 67003), (68736, 68786, 1, 68800), (71840, 71871, 1, 71872),
      (93760, 93791, 1, 93792), (125184, 125217, 1, 125218)]"

definition lower_above :: "(nat \<times> nat \<times> nat \<times> nat) list" where
  "lower_above =
     lower_above_1 @ lower_above_2 @ lower_above_3 @ lower_above_4 @ lower_above_5
     @ lower_above_6"

fun lower_lookup :: "(nat \<times> nat \<times> nat \<times> nat) list \<Rightarrow> codepoint \<Rightarrow> codepoint option" where
  "lower_lookup [] c = None"
| "lower_lookup ((lo, hi, step, target) # es) c =
     (if lo \<le> c \<and> c \<le> hi \<and> (c - lo) mod step = 0 then Some (target + (c - lo))
      else lower_lookup es c)"

definition lower_char :: "codepoint \<Rightarrow> str" where
  "lower_char c =
     (if c = 0x130 then [0x69, 0x307]
      else case lower_lookup (lower_latin1 @ lower_above) c of
             Some d \<Rightarrow> [d]
           | None \<Rightarrow> [c])"

text \<open>
  The capital sigma U+03A3 is the one character whose lowercase form depends on its
  neighbours. It becomes the final sigma U+03C2 when, skipping case-ignorable characters,
  a cased character stands before it and no cased character stands behind it, and the
  small sigma U+03C3 otherwise. \<open>left\<close> and \<open>right\<close> are the text on either side.
\<close>

definition case_ignorable_ranges_1 :: "(nat \<times> nat) list" where
  "case_ignorable_ranges_1 =
     [(39, 39), (46, 46), (58, 58), (94, 94), (96, 96), (168, 168), (173, 173),
      (175, 175), (180, 180), (183, 184), (688, 879), (884, 885), (890, 890), (900, 901),
      (903, 903), (1155, 1161), (1369, 1369), (1375, 1375), (1425, 1469), (1471, 1471), (1473, 1474),
      (1476, 1477), (1479, 1479), (1524, 1524), (1536, 1541), (1552, 1562), (1564, 1564), (1600, 1600),
      (1611, 1631), (1648, 1648), (1750, 1757), (1759, 1768)]"

definition case_ignorable_ranges_2 :: "(nat \<times> nat) list" where
  "case_ignorable_ranges_2 =
     [(1770, 1773), (1807, 1807), (1809, 1809), (1840, 1866), (1958, 1968), (2027, 2037), (2042, 2042),
      (2045, 2045), (2070, 2093), (2137, 2139), (2184, 2184), (2192, 2193), (2200, 2207), (2249, 2306),
      (2362, 2362), (2364, 2364), (2369, 2376), (2381, 2381), (2385, 2391), (2402, 2403), (2417, 2417),
      (2433, 2433), (2492, 2492), (2497, 2500), (2509, 2509), (2530, 2531), (2558, 2558), (2561, 2562),
      (2620, 2620), (2625, 2626), (2631, 2632), (2635, 2637)]"

definition case_ignorable_ranges_3 :: "(nat \<times> nat) list" where
  "case_ignorable_ranges_3 =
     [(2641, 2641), (2672, 2673), (2677, 2677), (2689, 2690), (2748, 2748), (2753, 2757), (2759, 2760),
      (2765, 2765), (2786, 2787), (2810, 2815), (2817, 2817), (2876, 2876), (2879, 2879), (2881, 2884),
      (2893, 2893), (2901, 2902), (2914, 2915), (2946, 2946), (3008, 3008), (3021, 3021), (3072, 3072),
      (3076, 3076), (3132, 3132), (3134, 3136), (3142, 3144), (3146, 3149), (3157, 3158), (3170, 3171),
      (3201, 3201), (3260, 3260), (3263, 3263), (3270, 3270)]"

definition case_ignorable_ranges_4 :: "(nat \<times> nat) list" where
  "case_ignorable_ranges_4 =
     [(3276, 3277), (3298, 3299), (3328, 3329), (3387, 3388), (3393, 3396), (3405, 3405), (3426, 3427),
      (3457, 3457), (3530, 3530), (3538, 3540), (3542, 3542), (3633, 3633), (3636, 3642), (3654, 3662),
      (3761, 3761), (3764, 3772), (3782, 3782), (3784, 3789), (3864, 3865), (3893, 3893), (3895, 3895),
      (3897, 3897), (3953, 3966), (3968, 3972), (3974, 3975), (3981, 3991), (3993, 4028), (4038, 4038),
      (4141, 4144), (4146, 4151), (4153, 4154), (4157, 4158)]"

definition case_ignorable_ranges_5 :: "(nat \<times> nat) list" where
  "case_ignorable_ranges_5 =
     [(4184, 4185), (4190, 4192), (4209, 4212), (4226, 4226), (4229, 4230), (4237, 4237), (4253, 4253),
      (4348, 4348), (4957, 4959), (5906, 5908), (5938, 5939), (5970, 5971), (6002, 6003), (6068, 6069),
      (6071, 6077), (6086, 6086), (6089, 6099), (6103, 6103), (6109, 6109), (6155, 6159), (6211, 6211),
      (6277, 6278), (6313, 6313), (6432, 6434), (6439, 6440), (6450, 6450), (6457, 6459), (6679, 6680),
      (6683, 6683), (6742, 6742), (6744, 6750), (6752, 6752)]"

definition case_ignorable_ranges_6 :: "(nat \<times> nat) list" where
  "case_ignorable_ranges_6 =
     [(6754, 6754), (6757, 6764), (6771, 6780), (6783, 6783), (6823, 6823), (6832, 6862), (6912, 6915),
      (6964, 6964), (6966, 6970), (6972, 6972), (6978, 6978), (7019, 7027), (7040, 7041), (7074, 7077),
      (7080, 7081), (7083, 7085), (7142, 7142), (7144, 7145), (7149, 7149), (7151, 7153), (7212, 7219),
      (7222, 7223), (7288, 7293), (7376, 7378), (7380, 7392), (7394, 7400), (7405, 7405), (7412, 7412),
      (7416, 7417), (7468, 7530), (7544, 7544), (7579, 7679)]"

definition case_ignorable_ranges_7 :: "(nat \<times> nat) list" where
  "case_ignorable_ranges_7 =
     [(8125, 8125), (8127, 8129), (8141, 8143), (8157, 8159), (8173, 8175), (8189, 8190), (8203, 8207),
      (8216, 8217), (8228, 8228), (8231, 8231), (8234, 8238), (8288, 8292), (8294, 8303), (8305, 8305),
      (8319, 8319), (8336, 8348), (8400, 8432), (11388, 11389), (11503, 11505), (11631, 11631), (11647, 11647),
      (11744, 11775), (11823, 11823), (12293, 12293), (12330, 12333), (12337, 12341), (12347, 12347), (12441, 12446),
      (12540, 12542), (40981, 40981), (42232, 42237), (42508, 42508)]"

definition case_ignorable_ranges_8 :: "(nat \<times> nat) list" where
  "case_ignorable_ranges_8 =
     [(42607, 42610), (42612, 42621), (42623, 42623), (42652, 42655), (42736, 42737), (42752, 42785), (42864, 42864),
      (42888, 42890), (42994, 42996), (43000, 43001), (43010, 43010), (43014, 43014), (43019, 43019), (43045, 43046),
      (43052, 43052), (43204, 43205), (43232, 43249), (43263, 43263), (43302, 43309), (43335, 43345), (43392, 43394),
      (43443, 43443), (43446, 43449), (43452, 43453), (43471, 43471), (43493, 43494), (43561, 43566), (43569, 43570),
      (43573, 43574), (43587, 43587), (43596, 43596), (43632, 43632)]"

definition case_ignorable_ranges_9 :: "(nat \<times> nat) list" where
  "case_ignorable_ranges_9 =
     [(43644, 43644), (43696, 43696), (43698, 43700), (43703, 43704), (43710, 43711), (43713, 43713), (43741, 43741),
      (43756, 43757), (43763, 43764), (43766, 43766), (43867, 43871), (43881, 43883), (44005, 44005), (44008, 44008),
      (44013, 44013), (64286, 64286), (64434, 64450), (65024, 65039), (65043, 65043), (65056, 65071), (65106, 65106),
      (65109, 65109), (65279, 65279), (65287, 65287), (65294, 65294), (65306, 65306), (65342, 65342), (65344, 65344),
      (65392, 65392), (65438, 65439), (65507, 65507), (65529, 65531)]"

definition case_ignorable_ranges_10 :: "(nat \<times> nat) list" where
  "case_ignorable_ranges_10 =
     [(66045, 66045), (66272, 66272), (66422, 66426), (67456, 67461), (67463, 67504), (67506, 67514), (68097, 68099),
      (68101, 68102), (68108, 68111), (68152, 68154), (68159, 68159), (68325, 68326), (68900, 68903), (69291, 69292),
      (69446, 69456), (69506, 69509), (69633, 69633), (69688, 69702), (69744, 69744), (69747, 69748), (69759, 69761),
      (69811, 69814), (69817, 69818), (69821, 69821), (69826, 69826), (69837, 69837), (69888, 69890), (69927, 69931),
      (69933, 69940), (70003, 70003), (70016, 70017), (70070, 70078)]"

definition case_ignorable_ranges_11 :: "(nat \<times> nat) list" where
  "case_ignorable_ranges_11 =
     [(70089, 70092), (70095, 70095), (70191, 70193), (70196, 70196), (70198, 70199), (70206, 70206), (70367, 70367),
      (70371, 70378), (70400, 70401), (70459, 70460), (70464, 70464), (70502, 70508), (70512, 70516), (70712, 70719),
      (70722, 70724), (70726, 70726), (70750, 70750), (70835, 70840), (70842, 70842), (70847, 70848), (70850, 70851),
      (71090, 71093), (71100, 71101), (71103, 71104), (71132, 71133), (71219, 71226), (71229, 71229), (71231, 71232),
      (71339, 71339), (71341, 71341), (71344, 71349), (71351, 71351)]"

definition case_ignorable_ranges_12 :: "(nat \<times> nat) list" where
  "case_ignorable_ranges_12 =
     [(71453, 71455), (71458, 71461), (71463, 71467), (71727, 71735), (71737, 71738), (71995, 71996), (71998, 71998),
      (72003, 72003), (72148, 72151), (72154, 72155), (72160, 72160), (72193, 72202), (72243, 72248), (72251, 72254),
      (72263, 72263), (72273, 72278), (72281, 72283), (72330, 72342), (72344, 72345), (72752, 72758), (72760, 72765),
      (72767, 72767), (72850, 72871), (72874, 72880), (72882, 72883), (72885, 72886), (73009, 73014), (73018, 73018),
      (73020, 73021), (73023, 73029), (73031, 73031), (73104, 73105)]"

definition case_ignorable_ranges_13 :: "(nat \<times> nat) list" where
  "case_ignorable_ranges_13 =
     [(73109, 73109), (73111, 73111), (73459, 73460), (78896, 78904), (92912, 92916), (92976, 92982), (92992, 92995),
      (94031, 94031), (94095, 94111), (94176, 94177), (94179, 94180), (110576, 110579), (110581, 110587), (110589, 110590),
      (113821, 113822), (113824, 113827), (118528, 118573), (118576, 118598), (119143, 119145), (119155, 119170), (119173, 119179),
      (119210, 119213), (119362, 119364), (121344, 121398), (121403, 121452), (121461, 121461), (121476, 121476), (121499, 121503),
      (121505, 121519), (122880, 122886), (122888, 122904), (122907, 122913)]"

definition case_ignorable_ranges_14 :: "(nat \<times> nat) list" where
  "case_ignorable_ranges_14 =
     [(122915, 122916), (122918, 122922), (123184, 123197), (123566, 123566), (123628, 123631), (125136, 125142), (125252, 125259),
      (127995, 127999), (917505, 917505), (917536, 917631), (917760, 917999)]"

definition case_ignorable_ranges :: "(nat \<times> nat) list" where
  "case_ignorable_ranges =
     case_ignorable_ranges_1 @ case_ignorable_ranges_2 @ case_ignorable_ranges_3 @
     case_ignorable_ranges_4 @ case_ignorable_ranges_5 @ case_ignorable_ranges_6 @
     case_ignorable_ranges_7 @ case_ignorable_ranges_8 @ case_ignorable_ranges_9 @
     case_ignorable_ranges_10 @ case_ignorable_ranges_11 @ case_ignorable_ranges_12
     @ case_ignorable_ranges_13 @ case_ignorable_ranges_14"

definition case_ignorable :: "codepoint \<Rightarrow> bool" where
  "case_ignorable c = in_ranges case_ignorable_ranges c"

definition cased_ranges_1 :: "(nat \<times> nat) list" where
  "cased_ranges_1 =
     [(65, 90), (97, 122), (170, 170), (181, 181), (186, 186), (192, 214), (216, 246),
      (248, 442), (444, 447), (452, 659), (661, 696), (704, 705), (736, 740), (837, 837),
      (880, 883), (886, 887), (890, 893), (895, 895), (902, 902), (904, 906), (908, 908),
      (910, 929), (931, 1013), (1015, 1153), (1162, 1327), (1329, 1366), (1376, 1416), (4256, 4293),
      (4295, 4295), (4301, 4301), (4304, 4346), (4349, 4351)]"

definition cased_ranges_2 :: "(nat \<times> nat) list" where
  "cased_ranges_2 =
     [(5024, 5109), (5112, 5117), (7296, 7304), (7312, 7354), (7357, 7359), (7424, 7615), (7680, 7957),
      (7960, 7965), (7968, 8005), (8008, 8013), (8016, 8023), (8025, 8025), (8027, 8027), (8029, 8029),
      (8031, 8061), (8064, 8116), (8118, 8124), (8126, 8126), (8130, 8132), (8134, 8140), (8144, 8147),
      (8150, 8155), (8160, 8172), (8178, 8180), (8182, 8188), (8305, 8305), (8319, 8319), (8336, 8348),
      (8450, 8450), (8455, 8455), (8458, 8467), (8469, 8469)]"

definition cased_ranges_3 :: "(nat \<times> nat) list" where
  "cased_ranges_3 =
     [(8473, 8477), (8484, 8484), (8486, 8486), (8488, 8488), (8490, 8493), (8495, 8500), (8505, 8505),
      (8508, 8511), (8517, 8521), (8526, 8526), (8544, 8575), (8579, 8580), (9398, 9449), (11264, 11492),
      (11499, 11502), (11506, 11507), (11520, 11557), (11559, 11559), (11565, 11565), (42560, 42605), (42624, 42653),
      (42786, 42887), (42891, 42894), (42896, 42954), (42960, 42961), (42963, 42963), (42965, 42969), (42997, 42998),
      (43000, 43002), (43824, 43866), (43868, 43880), (43888, 43967)]"

definition cased_ranges_4 :: "(nat \<times> nat) list" where
  "cased_ranges_4 =
     [(64256, 64262), (64275, 64279), (65313, 65338), (65345, 65370), (66560, 66639), (66736, 66771), (66776, 66811),
      (66928, 66938), (66940, 66954), (66956, 66962), (66964, 66965), (66967, 66977), (66979, 66993), (66995, 67001),
      (67003, 67004), (67456, 67456), (67459, 67461), (67463, 67504), (67506, 67514), (68736, 68786), (68800, 68850),
      (71840, 71903), (93760, 93823), (119808, 119892), (119894, 119964), (119966, 119967), (119970, 119970), (119973, 119974),
      (119977, 119980), (119982, 119993), (119995, 119995), (119997, 120003)]"

definition cased_ranges_5 :: "(nat \<times> nat) list" where
  "cased_ranges_5 =
     [(120005, 120069), (120071, 120074), (120077, 120084), (120086, 120092), (120094, 120121), (120123, 120126), (120128, 120132),
      (120134, 120134), (120138, 120144), (120146, 120485), (120488, 120512), (120514, 120538), (120540, 120570), (120572, 120596),
      (120598, 120628), (120630, 120654), (120656, 120686), (120688, 120712), (120714, 120744), (120746, 120770), (120772, 120779),
      (122624, 122633), (122635, 122654), (125184, 125251), (127280, 127305), (127312, 127337), (127344, 127369)]"

definition cased_ranges :: "(nat \<times> nat) list" where
  "cased_ranges =
     cased_ranges_1 @ cased_ranges_2 @ cased_ranges_3 @ cased_ranges_4 @
     cased_ranges_5"

definition cased :: "codepoint \<Rightarrow> bool" where
  "cased c = in_ranges cased_ranges c"

definition handle_capital_sigma :: "str \<Rightarrow> str \<Rightarrow> codepoint" where
  "handle_capital_sigma left right =
     (let final_sigma =
            (case dropWhile case_ignorable (rev left) of [] \<Rightarrow> False | c # _ \<Rightarrow> cased c) \<and>
            (case dropWhile case_ignorable right of [] \<Rightarrow> True | c # _ \<Rightarrow> \<not> cased c)
      in if final_sigma then 0x3C2 else 0x3C3)"

fun lower_loop :: "str \<Rightarrow> str \<Rightarrow> str" where
  "lower_loop left [] = []"
| "lower_loop left (c # right) =
     (if c = 0x3A3 then [handle_capital_sigma left right] else lower_char c)
     @ lower_loop (left @ [c]) right"

definition lower :: "str \<Rightarrow> str" where
  "lower s = lower_loop [] s"

subsection \<open>Text normalizer\<close>

text \<open>
  \<^verbatim>\<open>parentheses_re = re.compile(r'\([^)]*\)')\<close> and \<^verbatim>\<open>parentheses_re.sub('', text)\<close>.
  The class \<^verbatim>\<open>[^)]\<close> accepts every character but the closing parenthesis, so the
  pattern matches at an opening parenthesis exactly when a closing one follows somewhere,
  and the match ends at the first closing one. \<^verbatim>\<open>sub\<close> deletes the leftmost match and
  goes on behind it. The parentheses are the code points 40 and 41.
\<close>

function remove_parentheses :: "str \<Rightarrow> str" where
  "remove_parentheses [] = []"
| "remove_parentheses (c # cs) =
     (if c = 40 \<and> 41 \<in> set cs
      then remove_parentheses (tl (dropWhile (\<lambda>x. x \<noteq> 41) cs))
      else c # remove_parentheses cs)"
  by pat_completeness auto
termination
proof (relation "measure length")
  show "wf (measure length)" by simp
next
  fix c :: codepoint and cs :: str
  have "length (dropWhile (\<lambda>x. x \<noteq> 41) cs) \<le> length cs"
    by (rule length_dropWhile_le)
  then show "(tl (dropWhile (\<lambda>x. x \<noteq> 41) cs), c # cs) \<in> measure length"
    by simp
next
  fix c :: codepoint and cs :: str
  show "(cs, c # cs) \<in> measure length" by simp
qed

text \<open>
  The pattern has no match in a text when no opening parenthesis has a closing one
  somewhere behind it.
\<close>

fun no_match :: "str \<Rightarrow> bool" where
  "no_match [] = True"
| "no_match (c # cs) = ((c \<noteq> 40 \<or> 41 \<notin> set cs) \<and> no_match cs)"

text \<open>\<^verbatim>\<open>text.replace(old, new)\<close> for a pattern \<open>old\<close> of one character.\<close>

definition replace :: "str \<Rightarrow> codepoint \<Rightarrow> str \<Rightarrow> str" where
  "replace text old new = concat (map (\<lambda>c. if c = old then new else [c]) text)"

text \<open>The set literal \<^verbatim>\<open>{"~", "{", "}", "+", "-", "/"}\<close> of \<^verbatim>\<open>remove_punctuation\<close>.\<close>

definition kept_symbols :: "codepoint set" where
  "kept_symbols = {126, 123, 125, 43, 45, 47}"

text \<open>
  One round of the loop of \<^verbatim>\<open>remove_punctuation\<close>: \<open>out\<close> is the list built so far.
  The first \<^verbatim>\<open>if\<close> is not part of the \<^verbatim>\<open>if/elif/else\<close> chain that follows it. Line feed,
  carriage return and tab are the code points 10, 13 and 9, the space is 32 and the
  closing brace 125.
\<close>

definition remove_punctuation_step :: "str \<Rightarrow> codepoint \<Rightarrow> str" where
  "remove_punctuation_step out c =
     (let out1 = (if c \<in> {10, 13, 9} then out @ [32] else out)
      in if isspace c \<or> isalnum c then out1 @ [c]
         else if c \<in> kept_symbols
         then (let out2 = out1 @ [c] in if c = 125 then out2 @ [32] else out2)
         else out1 @ [32])"

definition remove_punctuation :: "str \<Rightarrow> str" where
  "remove_punctuation text = foldl remove_punctuation_step [] text"

text \<open>
  \<^verbatim>\<open>s.split()\<close> without arguments: the maximal runs of non-whitespace characters, in
  order. \<open>cur\<close> is the run being read.
\<close>

fun split_loop :: "str \<Rightarrow> str \<Rightarrow> str list" where
  "split_loop cur [] = (if cur = [] then [] else [cur])"
| "split_loop cur (c # cs) =
     (if isspace c then (if cur = [] then split_loop [] cs else cur # split_loop [] cs)
      else split_loop (cur @ [c]) cs)"

definition split :: "str \<Rightarrow> str list" where
  "split s = split_loop [] s"

definition clean_oracle_text :: "str \<Rightarrow> str list" where
  "clean_oracle_text text =
     (let no_parentheses = remove_parentheses text;
          no_newlines = replace no_parentheses 10 [32];
          no_punctuation = remove_punctuation no_newlines;
          no_upper = lower no_punctuation
      in split no_upper)"

subsection \<open>Vocabulary\<close>

definition lpad :: str where
  "lpad = str_of ''<lpad>''"

definition rpad :: str where
  "rpad = str_of ''<rpad>''"

text \<open>The two globals of the construction loop: the dictionary and the next free id.\<close>

record vocabulary =
  bag_of_words :: "str \<rightharpoonup> int"
  index :: int

definition initial_vocabulary :: vocabulary where
  "initial_vocabulary = \<lparr>bag_of_words = [rpad \<mapsto> 0, lpad \<mapsto> 1], index = 2\<rparr>"

text \<open>The body of the inner loop, for one \<open>word\<close>.\<close>

definition scan_word :: "vocabulary \<Rightarrow> str \<Rightarrow> vocabulary" where
  "scan_word v word =
     (case bag_of_words v word of
        Some _ \<Rightarrow> v
      | None \<Rightarrow> v\<lparr>bag_of_words := (bag_of_words v)(word \<mapsto> index v), index := index v + 1\<rparr>)"

definition scan_text :: "vocabulary \<Rightarrow> str list \<Rightarrow> vocabulary" where
  "scan_text v text = foldl scan_word v text"

text \<open>\<^verbatim>\<open>for name, text in cleaned\<close>: the corpus is a sequence of (name, token list).\<close>

definition scan_corpus :: "vocabulary \<Rightarrow> (str \<times> str list) list \<Rightarrow> vocabulary" where
  "scan_corpus v cleaned = foldl (\<lambda>v (name, text). scan_text v text) v cleaned"

definition build_vocabulary :: "(str \<times> str list) list \<Rightarrow> vocabulary" where
  "build_vocabulary cleaned = scan_corpus initial_vocabulary cleaned"

text \<open>
  What the construction loop maintains: the sentinels keep the ids 0 and 1, every id in
  the dictionary is non-negative and below the next free id, and no id is used twice.
\<close>

definition vocabulary_inv :: "vocabulary \<Rightarrow> bool" where
  "vocabulary_inv v \<longleftrightarrow>
     bag_of_words v rpad = Some 0 \<and> bag_of_words v lpad = Some 1 \<and>
     (\<forall>w i. bag_of_words v w = Some i \<longrightarrow> 0 \<le> i \<and> i < index v) \<and>
     (\<forall>w w' i. bag_of_words v w = Some i \<and> bag_of_words v w' = Some i \<longrightarrow> w = w')"

subsection \<open>Vectorizer\<close>

text \<open>
  \<^verbatim>\<open>[bag_of_words[word] for word in words]\<close>: the lookups run from left to right and the
  first missing key raises \<^verbatim>\<open>KeyError\<close>.
\<close>

fun lookup_all :: "(str \<rightharpoonup> int) \<Rightarrow> str list \<Rightarrow> py_error + int list" where
  "lookup_all d [] = Inr []"
| "lookup_all d (word # ws) =
     (case d word of
        None \<Rightarrow> Inl (KeyError word)
      | Some i \<Rightarrow> (case lookup_all d ws of Inl err \<Rightarrow> Inl err | Inr ids \<Rightarrow> Inr (i # ids)))"

definition vectorize :: "(str \<rightharpoonup> int) \<Rightarrow> str \<Rightarrow> py_error + int list" where
  "vectorize d text = lookup_all d ([lpad] @ clean_oracle_text text @ [rpad])"

section \<open>Properties\<close>

subsection \<open>The window loop\<close>

lemma windows_loop_returns:
  "result \<noteq> [] \<Longrightarrow> \<exists>ws. windows_loop it result = Inr ws"
  by (induction it arbitrary: result) auto

lemma windows_loop_length:
  "result \<noteq> [] \<Longrightarrow> windows_loop it result = Inr ws \<Longrightarrow>
   length ws = length result + length it"
proof (induction it arbitrary: result)
  case Nil
  then show ?case by simp
next
  case (Cons e it)
  from Cons.prems have "windows_loop it (result @ [tl (last result) @ [e]]) = Inr ws"
    by simp
  with Cons.IH [of "result @ [tl (last result) @ [e]]"] show ?case by simp
qed

lemma windows_loop_widths:
  "result \<noteq> [] \<Longrightarrow> windows_loop it result = Inr ws \<Longrightarrow> 0 < k \<Longrightarrow>
   \<forall>w \<in> set result. length w = k \<Longrightarrow> \<forall>w \<in> set ws. length w = k"
proof (induction it arbitrary: result)
  case Nil
  then show ?case by simp
next
  case (Cons e it)
  let ?r = "result @ [tl (last result) @ [e]]"
  from Cons.prems have run: "windows_loop it ?r = Inr ws" by simp
  from Cons.prems have "length (last result) = k" by simp
  with Cons.prems have "\<forall>w \<in> set ?r. length w = k" by simp
  with Cons.IH [of ?r] run Cons.prems(3) show ?case by simp
qed

lemma windows_loop_lasts:
  "result \<noteq> [] \<Longrightarrow> windows_loop it result = Inr ws \<Longrightarrow>
   map last ws = map last result @ it"
proof (induction it arbitrary: result)
  case Nil
  then show ?case by simp
next
  case (Cons e it)
  from Cons.prems have "windows_loop it (result @ [tl (last result) @ [e]]) = Inr ws"
    by simp
  with Cons.IH [of "result @ [tl (last result) @ [e]]"] show ?case by simp
qed

lemma windows_loop_prefix:
  "result \<noteq> [] \<Longrightarrow> windows_loop it result = Inr ws \<Longrightarrow> take (length result) ws = result"
proof (induction it arbitrary: result)
  case Nil
  then show ?case by simp
next
  case (Cons e it)
  let ?r = "result @ [tl (last result) @ [e]]"
  from Cons.prems have run: "windows_loop it ?r = Inr ws" by simp
  with Cons.IH [of ?r] have "take (Suc (length result)) ws = ?r" by simp
  then have "take (length result) (take (Suc (length result)) ws) = take (length result) ?r"
    by simp
  then show ?case by (simp add: min_def)
qed

lemma windows_loop_step:
  "result \<noteq> [] \<Longrightarrow> windows_loop it result = Inr ws \<Longrightarrow> i < length it \<Longrightarrow>
   ws ! (length result + i) = tl (ws ! (length result + i - 1)) @ [it ! i]"
proof (induction it arbitrary: result i)
  case Nil
  then show ?case by simp
next
  case (Cons e it)
  let ?r = "result @ [tl (last result) @ [e]]"
  from Cons.prems have run: "windows_loop it ?r = Inr ws" by simp
  have pre: "take (Suc (length result)) ws = ?r"
    using windows_loop_prefix [of ?r it ws] run by simp
  show ?case
  proof (cases i)
    case 0
    have "ws ! length result = take (Suc (length result)) ws ! length result" by simp
    also have "\<dots> = tl (last result) @ [e]" by (simp only: pre) simp
    finally have a: "ws ! length result = tl (last result) @ [e]" .
    have "ws ! (length result - 1) = take (Suc (length result)) ws ! (length result - 1)"
      by simp
    also have "\<dots> = last result"
      using Cons.prems(1) by (simp only: pre) (simp add: nth_append last_conv_nth)
    finally have b: "ws ! (length result - 1) = last result" .
    from a b 0 show ?thesis by simp
  next
    case (Suc j)
    with Cons.prems have "j < length it" by simp
    from Cons.IH [of ?r j, OF _ run this] Suc show ?thesis by simp
  qed
qed

lemma last_take: "0 < k \<Longrightarrow> k \<le> length s \<Longrightarrow> last (take k s) = s ! (k - 1)"
proof -
  assume k: "0 < k" "k \<le> length s"
  then have ne: "take k s \<noteq> []" by auto
  have "last (take k s) = take k s ! (length (take k s) - 1)"
    using ne by (rule last_conv_nth)
  also have "length (take k s) = k" using k by simp
  also have "take k s ! (k - 1) = s ! (k - 1)" using k by simp
  finally show ?thesis .
qed

lemma drop_pred: "0 < k \<Longrightarrow> k \<le> length s \<Longrightarrow> s ! (k - 1) # drop k s = drop (k - 1) s"
  using Cons_nth_drop_Suc [of "k - 1" s] by simp

lemma windows_unfold:
  "0 \<le> n \<Longrightarrow> n \<le> maxsize \<Longrightarrow>
   windows maxsize seq n = windows_loop (drop (nat n) seq) [take (nat n) seq]"
  by (simp add: windows_def islice_def)

lemma windows_rejects: "n < 0 \<or> maxsize < n \<Longrightarrow> windows maxsize seq n = Inl ValueError"
  by (simp add: windows_def islice_def)

subsection \<open>Windows of full width\<close>

text \<open>
  C1. For every sequence \<open>s\<close> and every width \<open>n\<close> with \<open>1 \<le> n \<le> len(s)\<close>,
  \<^verbatim>\<open>windows(s, n)\<close> returns \<open>len(s) - n + 1\<close> windows, each of length \<open>n\<close>, and the last
  elements of the windows, in order, are \<^verbatim>\<open>s[n-1:]\<close>; the call
  \<^verbatim>\<open>windows([1,162,26,19,0], 3)\<close> returns \<^verbatim>\<open>[[1,162,26], [162,26,19], [26,19,0]]\<close>. A list
  is a Python list, of at most \<^verbatim>\<open>sys.maxsize\<close> items.
\<close>

theorem windows_full_width:
  assumes "1 \<le> n" and "n \<le> int (length s)" and "int (length s) \<le> maxsize"
  shows "(\<exists>ws. windows maxsize s n = Inr ws \<and>
            int (length ws) = int (length s) - n + 1 \<and>
            (\<forall>w \<in> set ws. int (length w) = n) \<and>
            map last ws = drop (nat (n - 1)) s) \<and>
         (int (length [1, 162, 26, 19, 0 :: int]) \<le> maxsize \<longrightarrow>
            windows maxsize [1, 162, 26, 19, 0] 3 =
              Inr [[1, 162, 26], [162, 26, 19], [26, 19, 0]])"
proof
  let ?k = "nat n"
  from assms have k: "0 < ?k" "?k \<le> length s" by simp_all
  have unfold: "windows maxsize s n = windows_loop (drop ?k s) [take ?k s]"
    using assms by (simp add: windows_unfold)
  obtain ws where ws: "windows_loop (drop ?k s) [take ?k s] = Inr ws"
    using windows_loop_returns [of "[take ?k s]" "drop ?k s"] by auto
  have len: "length ws = Suc (length s - ?k)"
    using windows_loop_length [OF _ ws] by simp
  have one: "\<forall>w \<in> set [take ?k s]. length w = ?k"
    using k by simp
  have "[take ?k s] \<noteq> []" by simp
  then have "\<forall>w \<in> set ws. length w = ?k"
    using ws k(1) one by (rule windows_loop_widths)
  then have widths: "\<forall>w \<in> set ws. int (length w) = n"
    using assms(1) by auto
  have "map last ws = last (take ?k s) # drop ?k s"
    using windows_loop_lasts [OF _ ws] by simp
  also have "last (take ?k s) = s ! (?k - 1)"
    using k by (rule last_take)
  also have "s ! (?k - 1) # drop ?k s = drop (?k - 1) s"
    using k by (rule drop_pred)
  also have "?k - 1 = nat (n - 1)"
    using assms(1) by simp
  finally have lasts: "map last ws = drop (nat (n - 1)) s" .
  from len k have "int (length ws) = int (length s) - n + 1"
    using assms(1) by simp
  moreover have "windows maxsize s n = Inr ws"
    using unfold ws by simp
  ultimately
  show "\<exists>ws. windows maxsize s n = Inr ws \<and> int (length ws) = int (length s) - n + 1 \<and>
          (\<forall>w \<in> set ws. int (length w) = n) \<and> map last ws = drop (nat (n - 1)) s"
    using widths lasts by blast
next
  show "int (length [1, 162, 26, 19, 0 :: int]) \<le> maxsize \<longrightarrow>
          windows maxsize [1, 162, 26, 19, 0] 3 =
            Inr [[1, 162, 26], [162, 26, 19], [26, 19, 0]]"
    by (simp add: windows_def islice_def)
qed

theorem windows_full_width_witness:
  "(1::int) \<le> 2 \<and> 2 \<le> int (length [5, 6, 7 :: int]) \<and>
   int (length [5, 6, 7 :: int]) \<le> 9223372036854775807 \<and>
   (\<exists>ws. windows 9223372036854775807 [5, 6, 7] 2 = Inr ws \<and>
      int (length ws) = int (length [5, 6, 7 :: int]) - 2 + 1 \<and>
      (\<forall>w \<in> set ws. int (length w) = 2) \<and>
      map last ws = drop (nat (2 - 1)) [5, 6, 7]) \<and>
   int (length [1, 162, 26, 19, 0 :: int]) \<le> 9223372036854775807 \<and>
   windows 9223372036854775807 [1, 162, 26, 19, 0] 3 =
     Inr [[1, 162, 26], [162, 26, 19], [26, 19, 0]]"
  using windows_full_width [of 2 "[5, 6, 7]" 9223372036854775807] by simp

subsection \<open>Failure of the window generator\<close>

text \<open>
  C4, as stated: \<^verbatim>\<open>windows(seq, n)\<close> fails only when the width is non-positive, and never
  for \<open>n \<ge> 1\<close>. It fails for a width above \<^verbatim>\<open>sys.maxsize\<close>: on a 64-bit CPython
  \<^verbatim>\<open>windows([1, 2], 2**63)\<close> raises the \<^verbatim>\<open>ValueError\<close> of \<^verbatim>\<open>islice\<close>.
\<close>

theorem windows_large_width_counterexample:
  "(1::int) \<le> 9223372036854775808 \<and>
   windows 9223372036854775807 [1, 2] 9223372036854775808 = Inl ValueError"
  by (simp add: windows_def islice_def)

text \<open>
  C4, amended: \<^verbatim>\<open>windows(seq, n)\<close> fails only when the width is non-positive or above
  \<^verbatim>\<open>sys.maxsize\<close>, and the failure is the \<^verbatim>\<open>ValueError\<close> of \<^verbatim>\<open>islice\<close>; for every
  sequence and every width \<open>1 \<le> n \<le> sys.maxsize\<close> the call returns a list of windows.
\<close>

theorem windows_fails_only_out_of_range:
  "(windows maxsize seq n = Inl err \<longrightarrow> (n \<le> 0 \<or> maxsize < n) \<and> err = ValueError) \<and>
   (1 \<le> n \<and> n \<le> maxsize \<longrightarrow> (\<exists>ws. windows maxsize seq n = Inr ws))"
proof (cases "n < 0 \<or> maxsize < n")
  case True
  then have "windows maxsize seq n = Inl ValueError" by (rule windows_rejects)
  with True show ?thesis by auto
next
  case False
  then have "windows maxsize seq n = windows_loop (drop (nat n) seq) [take (nat n) seq]"
    by (simp add: windows_unfold)
  moreover obtain ws where "windows_loop (drop (nat n) seq) [take (nat n) seq] = Inr ws"
    using windows_loop_returns [of "[take (nat n) seq]" "drop (nat n) seq"] by auto
  ultimately show ?thesis by simp
qed

theorem windows_fails_only_out_of_range_witness:
  "windows 9223372036854775807 [1, 2] (- 1) = Inl ValueError \<and>
   ((- 1 :: int) \<le> 0 \<or> (9223372036854775807 :: int) < - 1) \<and>
   (1::int) \<le> 3 \<and> (3::int) \<le> 9223372036854775807 \<and>
   (\<exists>ws. windows 9223372036854775807 [1, 2] 3 = Inr ws)"
  using windows_fails_only_out_of_range [of 9223372036854775807 "[1, 2]" "- 1" ValueError]
    windows_fails_only_out_of_range [of 9223372036854775807 "[1, 2]" 3 ValueError]
  by (simp add: windows_rejects)

subsection \<open>Shape of the windows\<close>

text \<open>
  C8, as stated: for every sequence and every width \<open>n \<ge> 1\<close> the call returns windows,
  and for \<open>len(seq) < n\<close> it returns the single window \<open>seq\<close> with no error. For a width
  above \<^verbatim>\<open>sys.maxsize\<close> the call raises instead: on a 64-bit CPython
  \<^verbatim>\<open>windows([7, 8, 9], 2**63 + 5)\<close> has \<open>len(seq) < n\<close> and fails with \<^verbatim>\<open>ValueError\<close>.
\<close>

theorem windows_short_input_counterexample:
  "(1::int) \<le> 9223372036854775813 \<and>
   int (length [7, 8, 9 :: int]) < 9223372036854775813 \<and>
   windows 9223372036854775807 [7, 8, 9] 9223372036854775813 = Inl ValueError"
  by (simp add: windows_def islice_def)

text \<open>
  C8, amended: for every sequence and every width \<open>1 \<le> n \<le> sys.maxsize\<close>,
  \<^verbatim>\<open>windows(seq, n)\<close> returns a non-empty list whose first window is \<^verbatim>\<open>seq[:n]\<close>; each later
  window is the window before it without its head, followed by the next element of
  \<open>seq\<close>; and when \<open>len(seq) < n\<close> the result is the single window \<open>seq\<close>, with no error.
\<close>

theorem windows_shape:
  assumes "1 \<le> n" and "n \<le> maxsize"
  shows "\<exists>ws. windows maxsize seq n = Inr ws \<and> ws \<noteq> [] \<and>
           hd ws = take (nat n) seq \<and>
           length ws = Suc (length seq - nat n) \<and>
           (\<forall>i. Suc i < length ws \<longrightarrow> ws ! Suc i = tl (ws ! i) @ [seq ! (nat n + i)]) \<and>
           (int (length seq) < n \<longrightarrow> ws = [seq])"
proof -
  let ?k = "nat n"
  have unfold: "windows maxsize seq n = windows_loop (drop ?k seq) [take ?k seq]"
    using assms by (simp add: windows_unfold)
  obtain ws where ws: "windows_loop (drop ?k seq) [take ?k seq] = Inr ws"
    using windows_loop_returns [of "[take ?k seq]" "drop ?k seq"] by auto
  have len: "length ws = Suc (length seq - ?k)"
    using windows_loop_length [OF _ ws] by simp
  then have ne: "ws \<noteq> []" by auto
  have "take 1 ws = [take ?k seq]"
    using windows_loop_prefix [OF _ ws] by simp
  with ne have first: "hd ws = take ?k seq"
    by (cases ws) simp_all
  have step: "ws ! Suc i = tl (ws ! i) @ [seq ! (?k + i)]" if "Suc i < length ws" for i
  proof -
    from that len have i: "i < length (drop ?k seq)" by simp
    from windows_loop_step [OF _ ws i] show ?thesis
      using i by simp
  qed
  have short: "ws = [seq]" if "int (length seq) < n"
  proof -
    from that have "length seq \<le> ?k" by simp
    with len first show ?thesis by (cases ws) simp_all
  qed
  have run: "windows maxsize seq n = Inr ws"
    using unfold ws by simp
  show ?thesis
  proof (intro exI conjI allI impI)
    show "windows maxsize seq n = Inr ws" by (rule run)
    show "ws \<noteq> []" by (rule ne)
    show "hd ws = take ?k seq" by (rule first)
    show "length ws = Suc (length seq - ?k)" by (rule len)
    show "ws ! Suc i = tl (ws ! i) @ [seq ! (?k + i)]" if "Suc i < length ws" for i
      using that by (rule step)
    show "ws = [seq]" if "int (length seq) < n"
      using that by (rule short)
  qed
qed

theorem windows_shape_witness:
  "(1::int) \<le> 2 \<and> (2::int) \<le> 9223372036854775807 \<and>
   (\<exists>ws. windows 9223372036854775807 [5, 6, 7] 2 = Inr ws \<and> ws \<noteq> [] \<and>
      hd ws = take (nat 2) [5, 6, 7] \<and>
      length ws = Suc (length [5, 6, 7 :: int] - nat 2) \<and>
      (\<forall>i. Suc i < length ws \<longrightarrow> ws ! Suc i = tl (ws ! i) @ [[5, 6, 7] ! (nat 2 + i)]) \<and>
      (int (length [5, 6, 7 :: int]) < 2 \<longrightarrow> ws = [[5, 6, 7]]))"
  using windows_shape [of 2 9223372036854775807 "[5, 6, 7]"] by simp

subsection \<open>Looking up the tables\<close>

lemma in_ranges_append: "in_ranges (xs @ ys) k = (in_ranges xs k \<or> in_ranges ys k)"
  by (induction xs k rule: in_ranges.induct) auto

lemma in_ranges_above:
  "list_all (\<lambda>(lo, hi). m \<le> lo) rs \<Longrightarrow> k < m \<Longrightarrow> \<not> in_ranges rs k"
  by (induction rs k rule: in_ranges.induct) auto

lemma lower_lookup_append:
  "lower_lookup (xs @ ys) c =
     (case lower_lookup xs c of Some d \<Rightarrow> Some d | None \<Rightarrow> lower_lookup ys c)"
  by (induction xs c rule: lower_lookup.induct) auto

lemma lower_lookup_above:
  "list_all (\<lambda>(lo, hi, step, target). m \<le> lo) es \<Longrightarrow> c < m \<Longrightarrow> lower_lookup es c = None"
  by (induction es c rule: lower_lookup.induct) auto

lemma lower_lookup_outside:
  "list_all (\<lambda>(lo, hi, step, target). hi < a \<or> b < lo) es \<Longrightarrow> a \<le> c \<Longrightarrow> c \<le> b \<Longrightarrow>
   lower_lookup es c = None"
  by (induction es c rule: lower_lookup.induct) auto


lemmas isalnum_above_blocks =
  isalnum_above_1_def isalnum_above_2_def isalnum_above_3_def isalnum_above_4_def
  isalnum_above_5_def isalnum_above_6_def isalnum_above_7_def isalnum_above_8_def
  isalnum_above_9_def isalnum_above_10_def isalnum_above_11_def isalnum_above_12_def
  isalnum_above_13_def isalnum_above_14_def isalnum_above_15_def isalnum_above_16_def
  isalnum_above_17_def isalnum_above_18_def isalnum_above_19_def isalnum_above_20_def
  isalnum_above_21_def isalnum_above_22_def isalnum_above_23_def

lemmas isupper_above_blocks =
  isupper_above_1_def isupper_above_2_def isupper_above_3_def isupper_above_4_def
  isupper_above_5_def isupper_above_6_def isupper_above_7_def isupper_above_8_def
  isupper_above_9_def isupper_above_10_def isupper_above_11_def isupper_above_12_def
  isupper_above_13_def isupper_above_14_def isupper_above_15_def isupper_above_16_def
  isupper_above_17_def isupper_above_18_def isupper_above_19_def isupper_above_20_def
  isupper_above_21_def

lemmas lower_above_blocks =
  lower_above_1_def lower_above_2_def lower_above_3_def lower_above_4_def
  lower_above_5_def lower_above_6_def

lemma isspace_above_ge: "list_all (\<lambda>(lo, hi). 256 \<le> lo) isspace_above"
  by (simp add: isspace_above_def)

lemma isalnum_above_ge: "list_all (\<lambda>(lo, hi). 256 \<le> lo) isalnum_above"
  apply (simp only: isalnum_above_def list_all_append)
  apply (simp add: isalnum_above_blocks)
  done

lemma isupper_above_ge: "list_all (\<lambda>(lo, hi). 256 \<le> lo) isupper_above"
  apply (simp only: isupper_above_def list_all_append)
  apply (simp add: isupper_above_blocks)
  done

lemma lower_above_ge: "list_all (\<lambda>(lo, hi, step, target). 256 \<le> lo) lower_above"
  apply (simp only: lower_above_def list_all_append)
  apply (simp add: lower_above_blocks)
  done



text \<open>No whitespace character above 255 has an entry in the lowercase table.\<close>

lemma lower_above_no_space:
  "list_all (\<lambda>(lo, hi, step, target). hi < 5760 \<or> 12288 < lo \<or>
      (5760 < lo \<and> hi < 8192) \<or> (8202 < lo \<and> hi < 8232) \<or> (8233 < lo \<and> hi < 8239) \<or>
      (8239 < lo \<and> hi < 8287) \<or> (8287 < lo \<and> hi < 12288)) lower_above"
  apply (simp only: lower_above_def list_all_append)
  apply (simp add: lower_above_blocks)
  done

subsection \<open>Character classes\<close>

lemma isspace_iff:
  "isspace c \<longleftrightarrow>
     (9 \<le> c \<and> c \<le> 13) \<or> (28 \<le> c \<and> c \<le> 32) \<or> c = 133 \<or> c = 160 \<or> c = 5760 \<or>
     (8192 \<le> c \<and> c \<le> 8202) \<or> (8232 \<le> c \<and> c \<le> 8233) \<or> c = 8239 \<or> c = 8287 \<or>
     c = 12288"
  by (auto simp: isspace_def isspace_latin1_def isspace_above_def)

lemma isalnum_latin1_iff:
  "c < 256 \<Longrightarrow> isalnum c \<longleftrightarrow>
     (48 \<le> c \<and> c \<le> 57) \<or> (65 \<le> c \<and> c \<le> 90) \<or> (97 \<le> c \<and> c \<le> 122) \<or>
     c = 170 \<or> (178 \<le> c \<and> c \<le> 179) \<or> c = 181 \<or> (185 \<le> c \<and> c \<le> 186) \<or>
     (188 \<le> c \<and> c \<le> 190) \<or> (192 \<le> c \<and> c \<le> 214) \<or> (216 \<le> c \<and> c \<le> 246) \<or>
     (248 \<le> c \<and> c \<le> 255)"
proof -
  assume "c < 256"
  with isalnum_above_ge have "\<not> in_ranges isalnum_above c" by (rule in_ranges_above)
  then have "isalnum c = in_ranges isalnum_latin1 c"
    by (simp add: isalnum_def in_ranges_append)
  also have "\<dots> = ((48 \<le> c \<and> c \<le> 57) \<or> (65 \<le> c \<and> c \<le> 90) \<or> (97 \<le> c \<and> c \<le> 122) \<or>
     c = 170 \<or> (178 \<le> c \<and> c \<le> 179) \<or> c = 181 \<or> (185 \<le> c \<and> c \<le> 186) \<or>
     (188 \<le> c \<and> c \<le> 190) \<or> (192 \<le> c \<and> c \<le> 214) \<or> (216 \<le> c \<and> c \<le> 246) \<or>
     (248 \<le> c \<and> c \<le> 255))"
    by (simp add: isalnum_latin1_def) linarith
  finally show ?thesis .
qed

lemma isupper_latin1_iff:
  "c < 256 \<Longrightarrow> isupper c \<longleftrightarrow>
     (65 \<le> c \<and> c \<le> 90) \<or> (192 \<le> c \<and> c \<le> 214) \<or> (216 \<le> c \<and> c \<le> 222)"
proof -
  assume "c < 256"
  with isupper_above_ge have "\<not> in_ranges isupper_above c" by (rule in_ranges_above)
  then have "isupper c = in_ranges isupper_latin1 c"
    by (simp add: isupper_def in_ranges_append)
  then show ?thesis by (simp add: isupper_latin1_def)
qed

lemma lower_char_latin1:
  "c < 256 \<Longrightarrow> lower_char c = (if isupper c then [c + 32] else [c])"
proof -
  assume c: "c < 256"
  with lower_above_ge have "lower_lookup lower_above c = None" by (rule lower_lookup_above)
  then have "lower_lookup (lower_latin1 @ lower_above) c = lower_lookup lower_latin1 c"
    by (simp add: lower_lookup_append split: option.splits)
  moreover have "lower_lookup lower_latin1 c =
      (if (65 \<le> c \<and> c \<le> 90) \<or> (192 \<le> c \<and> c \<le> 214) \<or> (216 \<le> c \<and> c \<le> 222)
       then Some (c + 32) else None)"
    by (auto simp: lower_latin1_def)
  ultimately show ?thesis
    using c by (simp add: lower_char_def isupper_latin1_iff)
qed

lemma lower_char_space: "isspace c \<Longrightarrow> lower_char c = [c]"
proof (cases "c < 256")
  case True
  assume "isspace c"
  then have "\<not> isupper c"
    using True by (simp add: isupper_latin1_iff isspace_iff) linarith
  with True show ?thesis by (simp add: lower_char_latin1)
next
  case False
  assume "isspace c"
  with False have rng: "5760 \<le> c \<and> c \<le> 12288 \<and> c \<noteq> 0x130"
    and gaps: "\<not> (5760 < c \<and> c < 8192)" "\<not> (8202 < c \<and> c < 8232)" "\<not> (8233 < c \<and> c < 8239)"
      "\<not> (8239 < c \<and> c < 8287)" "\<not> (8287 < c \<and> c < 12288)"
    by (auto simp: isspace_iff)
  have latin: "lower_lookup lower_latin1 c = None"
    using False by (simp add: lower_latin1_def)
  have "lower_lookup es c = None"
    if "list_all (\<lambda>(lo, hi, step, target). hi < 5760 \<or> 12288 < lo \<or>
      (5760 < lo \<and> hi < 8192) \<or> (8202 < lo \<and> hi < 8232) \<or> (8233 < lo \<and> hi < 8239) \<or>
      (8239 < lo \<and> hi < 8287) \<or> (8287 < lo \<and> hi < 12288)) es" for es
    using that rng gaps by (induction es c rule: lower_lookup.induct) auto
  from this [OF lower_above_no_space] latin rng show ?thesis
    by (simp add: lower_char_def lower_lookup_append)
qed

lemma isspace_not_sigma: "isspace c \<Longrightarrow> c \<noteq> 0x3A3"
  by (auto simp: isspace_iff)

lemma kept_symbols_latin1: "c \<in> kept_symbols \<Longrightarrow> c < 256 \<and> \<not> isupper c"
  by (auto simp: kept_symbols_def isupper_latin1_iff)

lemma lower_char_symbol: "c \<in> kept_symbols \<Longrightarrow> lower_char c = [c]"
  using kept_symbols_latin1 [of c] by (simp add: lower_char_latin1)



subsection \<open>The normalizer, step by step\<close>

lemma set_tl_subset: "set (tl xs) \<subseteq> set xs"
  by (cases xs) auto

lemma set_remove_parentheses: "set (remove_parentheses t) \<subseteq> set t"
proof (induction t rule: remove_parentheses.induct)
  case 1
  show ?case by simp
next
  case (2 c cs)
  show ?case
  proof (cases "c = 40 \<and> 41 \<in> set cs")
    case True
    let ?rest = "tl (dropWhile (\<lambda>x. x \<noteq> 41) cs)"
    from True 2 have "set (remove_parentheses ?rest) \<subseteq> set ?rest" by simp
    also have "set ?rest \<subseteq> set (dropWhile (\<lambda>x. x \<noteq> 41) cs)"
      by (rule set_tl_subset)
    also have "\<dots> \<subseteq> set cs" by (auto dest: set_dropWhileD)
    finally show ?thesis using True by auto
  next
    case False
    with 2 have "set (remove_parentheses cs) \<subseteq> set cs" by simp
    with False show ?thesis by auto
  qed
qed




lemma remove_punctuation_step_set:
  "set (remove_punctuation_step out c) \<subseteq>
     set out \<union> {32} \<union> (if isspace c \<or> isalnum c \<or> c \<in> kept_symbols then {c} else {})"
  by (auto simp: remove_punctuation_step_def Let_def)

lemma foldl_remove_punctuation_step_set:
  "set (foldl remove_punctuation_step out s) \<subseteq>
     set out \<union> {32} \<union> {c \<in> set s. isspace c \<or> isalnum c \<or> c \<in> kept_symbols}"
proof (induction s arbitrary: out)
  case Nil
  show ?case by auto
next
  case (Cons c s)
  have "set (foldl remove_punctuation_step (remove_punctuation_step out c) s) \<subseteq>
          set (remove_punctuation_step out c) \<union> {32} \<union>
          {c \<in> set s. isspace c \<or> isalnum c \<or> c \<in> kept_symbols}"
    by (rule Cons.IH)
  moreover note remove_punctuation_step_set [of out c]
  ultimately show ?case by (auto split: if_splits)
qed

lemma set_remove_punctuation:
  "set (remove_punctuation s) \<subseteq>
     {32} \<union> {c \<in> set s. isspace c \<or> isalnum c \<or> c \<in> kept_symbols}"
  using foldl_remove_punctuation_step_set [of "[]" s] by (simp add: remove_punctuation_def)

lemma set_replace: "set (replace t old new) \<subseteq> set t \<union> set new"
  by (auto simp: replace_def split: if_splits)

lemma split_loop_all_space: "\<forall>c \<in> set s. isspace c \<Longrightarrow> split_loop [] s = []"
  by (induction s) simp_all

lemma no_match_remove_parentheses: "no_match (remove_parentheses t)"
proof (induction t rule: remove_parentheses.induct)
  case 1
  show ?case by simp
next
  case (2 c cs)
  show ?case
  proof (cases "c = 40 \<and> 41 \<in> set cs")
    case True
    with 2 show ?thesis by simp
  next
    case False
    with 2 have rest: "no_match (remove_parentheses cs)" by simp
    have eq: "remove_parentheses (c # cs) = c # remove_parentheses cs"
      using False by auto
    have "c \<noteq> 40 \<or> 41 \<notin> set (remove_parentheses cs)"
      using False set_remove_parentheses [of cs] by auto
    with rest show ?thesis by (simp only: eq no_match.simps)
  qed
qed

lemma remove_parentheses_no_match: "no_match t \<Longrightarrow> remove_parentheses t = t"
  by (induction t) auto

lemma punctuated_chars:
  "set (remove_punctuation (replace (remove_parentheses t) 10 [32])) \<subseteq>
     {32} \<union> {c \<in> set t. isspace c \<or> isalnum c \<or> c \<in> kept_symbols}"
proof -
  let ?a = "remove_parentheses t"
  let ?b = "replace ?a 10 [32]"
  let ?K = "\<lambda>s. {c \<in> set s. isspace c \<or> isalnum c \<or> c \<in> kept_symbols}"
  have "set ?b \<subseteq> set t \<union> {32}"
    using set_replace [of ?a 10 "[32]"] set_remove_parentheses [of t] by auto
  then have "?K ?b \<subseteq> ?K t \<union> {32}" by auto
  with set_remove_punctuation [of ?b] show ?thesis by blast
qed

lemma handle_capital_sigma_cases:
  "handle_capital_sigma left right = 0x3C2 \<or> handle_capital_sigma left right = 0x3C3"
  by (simp add: handle_capital_sigma_def Let_def)

lemma lower_loop_sources:
  "x \<in> set (lower_loop left s) \<Longrightarrow>
   \<exists>c \<in> set s. (c = 0x3A3 \<and> (x = 0x3C2 \<or> x = 0x3C3)) \<or> (c \<noteq> 0x3A3 \<and> x \<in> set (lower_char c))"
proof (induction s arbitrary: left)
  case Nil
  then show ?case by simp
next
  case (Cons c s)
  from Cons.prems consider
      "c = 0x3A3" "x = handle_capital_sigma left s"
    | "c \<noteq> 0x3A3" "x \<in> set (lower_char c)"
    | "x \<in> set (lower_loop (left @ [c]) s)"
    by (auto split: if_splits)
  then show ?case
  proof cases
    case 1
    with handle_capital_sigma_cases [of left s] show ?thesis by auto
  next
    case 2
    then show ?thesis by auto
  next
    case 3
    then have "\<exists>c \<in> set s. (c = 0x3A3 \<and> (x = 0x3C2 \<or> x = 0x3C3)) \<or>
        (c \<noteq> 0x3A3 \<and> x \<in> set (lower_char c))"
      by (rule Cons.IH)
    then show ?thesis by auto
  qed
qed

lemma lower_sources:
  "x \<in> set (lower s) \<Longrightarrow>
   \<exists>c \<in> set s. (c = 0x3A3 \<and> (x = 0x3C2 \<or> x = 0x3C3)) \<or> (c \<noteq> 0x3A3 \<and> x \<in> set (lower_char c))"
  unfolding lower_def by (rule lower_loop_sources)

lemma lower_all_space:
  assumes "\<forall>c \<in> set s. isspace c"
  shows "\<forall>x \<in> set (lower s). isspace x"
proof
  fix x assume "x \<in> set (lower s)"
  then obtain c where c: "c \<in> set s"
    and x: "(c = 0x3A3 \<and> (x = 0x3C2 \<or> x = 0x3C3)) \<or> (c \<noteq> 0x3A3 \<and> x \<in> set (lower_char c))"
    using lower_sources by blast
  from assms c have sp: "isspace c" by blast
  then have "c \<noteq> 0x3A3" by (rule isspace_not_sigma)
  with x have "x \<in> set (lower_char c)" by blast
  with sp have "x = c" by (simp add: lower_char_space)
  with sp show "isspace x" by simp
qed

lemma clean_oracle_text_unfold:
  "clean_oracle_text t =
     split_loop [] (lower (remove_punctuation (replace (remove_parentheses t) 10 [32])))"
  by (simp add: clean_oracle_text_def split_def)




lemmas latin1_eval = isalnum_latin1_iff isspace_iff lower_char_latin1 isupper_latin1_iff
  kept_symbols_def str_of_def

lemmas pipeline_eval = clean_oracle_text_def remove_punctuation_def remove_punctuation_step_def
  replace_def lower_def split_def Let_def



subsection \<open>Removing parenthesized spans twice\<close>

text \<open>
  C5. \<^verbatim>\<open>remove_parentheses\<close> is idempotent: for every text \<open>t\<close>,
  \<^verbatim>\<open>remove_parentheses(remove_parentheses(t)) == remove_parentheses(t)\<close>. The output of one
  pass has no match left, since an opening parenthesis is kept only when no closing one
  follows it.
\<close>

theorem remove_parentheses_idempotent:
  "remove_parentheses (remove_parentheses t) = remove_parentheses t"
  using no_match_remove_parentheses [of t] by (rule remove_parentheses_no_match)

subsection \<open>Tab, carriage return and line feed in the character pass\<close>

text \<open>
  C9. The claim is that \<^verbatim>\<open>remove_punctuation\<close> maps every tab, carriage return and line
  feed to a space. The loop appends a space for such a character and then, because the
  test \<^verbatim>\<open>c.isspace()\<close> is an \<^verbatim>\<open>if\<close> of its own and not an \<^verbatim>\<open>elif\<close>, appends the character
  as well: \<^verbatim>\<open>remove_punctuation("a\tb")\<close> is \<^verbatim>\<open>"a \tb"\<close>, with the tab still in the output.
\<close>

theorem remove_punctuation_keeps_tab:
  "remove_punctuation (str_of [CHR ''a'', CHR 0x09, CHR ''b'']) =
     str_of [CHR ''a'', CHR '' '', CHR 0x09, CHR ''b''] \<and>
   remove_punctuation (str_of [CHR 0x0D]) = str_of [CHR '' '', CHR 0x0D] \<and>
   remove_punctuation (str_of [CHR 0x0A]) = str_of [CHR '' '', CHR 0x0A]"
  by (simp add: pipeline_eval latin1_eval)

subsection \<open>Texts without alphanumeric characters\<close>

text \<open>
  C3, as stated: a text with no alphanumeric character yields the empty token list. It
  fails at the text \<^verbatim>\<open>"~"\<close>, which has no alphanumeric character and yields the token
  \<^verbatim>\<open>"~"\<close>: the character pass keeps the symbols \<^verbatim>\<open>~ { } + - /\<close>.
\<close>

theorem clean_oracle_text_symbol_counterexample:
  "\<not> list_ex isalnum (str_of ''~'') \<and> clean_oracle_text (str_of ''~'') = [str_of ''~'']"
  by (simp add: pipeline_eval latin1_eval)

text \<open>
  C3, amended: for every text that contains no alphanumeric character and none of the
  symbols \<^verbatim>\<open>~ { } + - /\<close>, \<^verbatim>\<open>clean_oracle_text\<close> returns the empty token list.
\<close>

theorem clean_oracle_text_empty:
  assumes "\<forall>c \<in> set t. \<not> isalnum c \<and> c \<notin> kept_symbols"
  shows "clean_oracle_text t = []"
proof -
  let ?P = "remove_punctuation (replace (remove_parentheses t) 10 [32])"
  have "\<forall>c \<in> set ?P. isspace c"
  proof
    fix c assume "c \<in> set ?P"
    with punctuated_chars [of t]
    have "c = 32 \<or> c \<in> set t \<and> (isspace c \<or> isalnum c \<or> c \<in> kept_symbols)" by auto
    with assms have "c = 32 \<or> isspace c" by auto
    then show "isspace c" by (auto simp: isspace_iff)
  qed
  then have "\<forall>x \<in> set (lower ?P). isspace x" by (rule lower_all_space)
  then have "split_loop [] (lower ?P) = []" by (rule split_loop_all_space)
  then show ?thesis by (simp only: clean_oracle_text_unfold)
qed

theorem clean_oracle_text_empty_witness:
  "list_all (\<lambda>c. \<not> isalnum c \<and> c \<notin> kept_symbols) (str_of ''. , !'') \<and>
   clean_oracle_text (str_of ''. , !'') = []"
proof -
  have h: "list_all (\<lambda>c. \<not> isalnum c \<and> c \<notin> kept_symbols) (str_of ''. , !'')"
    by (simp add: latin1_eval)
  then have "\<forall>c \<in> set (str_of ''. , !''). \<not> isalnum c \<and> c \<notin> kept_symbols"
    by (simp only: list_all_iff)
  then have "clean_oracle_text (str_of ''. , !'') = []"
    by (rule clean_oracle_text_empty)
  with h show ?thesis by (rule conjI)
qed

subsection \<open>The tokens of a cleaned text\<close>




subsection \<open>The construction loop\<close>

lemma scan_word_keeps:
  "bag_of_words v w = Some i \<Longrightarrow> bag_of_words (scan_word v word) w = Some i"
  by (auto simp: scan_word_def split: option.splits)

lemma scan_words_keeps:
  "bag_of_words v w = Some i \<Longrightarrow> bag_of_words (foldl scan_word v ws) w = Some i"
proof (induction ws arbitrary: v)
  case Nil
  then show ?case by simp
next
  case (Cons x xs)
  from Cons.prems have "bag_of_words (scan_word v x) w = Some i" by (rule scan_word_keeps)
  then have "bag_of_words (foldl scan_word (scan_word v x) xs) w = Some i" by (rule Cons.IH)
  then show ?case by simp
qed

lemma scan_word_index: "index v \<le> index (scan_word v word)"
  by (simp add: scan_word_def split: option.splits)

lemma scan_words_index: "index v \<le> index (foldl scan_word v ws)"
proof (induction ws arbitrary: v)
  case Nil
  show ?case by simp
next
  case (Cons x xs)
  have "index v \<le> index (scan_word v x)" by (rule scan_word_index)
  also have "\<dots> \<le> index (foldl scan_word (scan_word v x) xs)" by (rule Cons.IH)
  finally show ?case by simp
qed

lemma scan_word_dom: "dom (bag_of_words (scan_word v word)) = insert word (dom (bag_of_words v))"
  by (auto simp: scan_word_def split: option.splits)

lemma scan_words_dom: "dom (bag_of_words (foldl scan_word v ws)) = dom (bag_of_words v) \<union> set ws"
proof (induction ws arbitrary: v)
  case Nil
  show ?case by simp
next
  case (Cons x xs)
  have "dom (bag_of_words (foldl scan_word (scan_word v x) xs)) =
          dom (bag_of_words (scan_word v x)) \<union> set xs"
    by (rule Cons.IH)
  then show ?case by (simp add: scan_word_dom)
qed

lemma scan_word_fresh:
  "bag_of_words v word = None \<Longrightarrow> bag_of_words (scan_word v word) word = Some (index v)"
  by (simp add: scan_word_def)

lemma scan_words_new:
  "bag_of_words v w = None \<Longrightarrow> bag_of_words (foldl scan_word v ws) w = Some i \<Longrightarrow> index v \<le> i"
proof (induction ws arbitrary: v)
  case Nil
  then show ?case by simp
next
  case (Cons x xs)
  from Cons.prems(2) have fin: "bag_of_words (foldl scan_word (scan_word v x) xs) w = Some i"
    by simp
  show ?case
  proof (cases "x = w")
    case True
    with Cons.prems(1) have "bag_of_words (scan_word v x) w = Some (index v)"
      by (simp add: scan_word_fresh)
    then have "bag_of_words (foldl scan_word (scan_word v x) xs) w = Some (index v)"
      by (rule scan_words_keeps)
    with fin show ?thesis by simp
  next
    case False
    with Cons.prems(1) have "bag_of_words (scan_word v x) w = None"
      by (simp add: scan_word_def split: option.splits)
    then have "index (scan_word v x) \<le> i" using fin by (rule Cons.IH)
    with scan_word_index [of v x] show ?thesis by simp
  qed
qed

lemma sentinels_differ: "rpad \<noteq> lpad"
  by (simp add: rpad_def lpad_def str_of_def)

lemma initial_vocabulary_inv: "vocabulary_inv initial_vocabulary"
  using sentinels_differ
  by (auto simp: vocabulary_inv_def initial_vocabulary_def split: if_splits)

lemma scan_word_inv: "vocabulary_inv v \<Longrightarrow> vocabulary_inv (scan_word v word)"
proof (cases "bag_of_words v word")
  case (Some i)
  assume "vocabulary_inv v"
  with Some show ?thesis by (simp add: scan_word_def)
next
  case None
  assume inv: "vocabulary_inv v"
  let ?v = "scan_word v word"
  have bag: "bag_of_words ?v = (bag_of_words v)(word \<mapsto> index v)"
    and idx: "index ?v = index v + 1"
    using None by (simp_all add: scan_word_def)
  from inv None have ne: "word \<noteq> rpad" "word \<noteq> lpad"
    by (auto simp: vocabulary_inv_def)
  from inv have old: "\<And>w i. bag_of_words v w = Some i \<Longrightarrow> 0 \<le> i \<and> i < index v"
    by (simp add: vocabulary_inv_def)
  from inv have uniq: "\<And>w w' i. bag_of_words v w = Some i \<Longrightarrow> bag_of_words v w' = Some i \<Longrightarrow> w = w'"
    by (auto simp: vocabulary_inv_def)
  from inv have "bag_of_words v rpad = Some 0" by (simp add: vocabulary_inv_def)
  from old [OF this] have pos: "0 < index v" by simp
  show ?thesis
    unfolding vocabulary_inv_def
  proof (intro conjI allI impI)
    from inv ne show "bag_of_words ?v rpad = Some 0" by (simp add: bag vocabulary_inv_def)
    from inv ne show "bag_of_words ?v lpad = Some 1" by (simp add: bag vocabulary_inv_def)
  next
    fix w i assume "bag_of_words ?v w = Some i"
    then have "i = index v \<or> bag_of_words v w = Some i"
      by (simp add: bag split: if_splits)
    then show "0 \<le> i" using old pos by auto
  next
    fix w i assume "bag_of_words ?v w = Some i"
    then have "i = index v \<or> bag_of_words v w = Some i"
      by (simp add: bag split: if_splits)
    then show "i < index ?v" using old [of w i] by (auto simp: idx)
  next
    fix w w' i
    assume "bag_of_words ?v w = Some i \<and> bag_of_words ?v w' = Some i"
    then have a: "(w = word \<and> i = index v) \<or> (w \<noteq> word \<and> bag_of_words v w = Some i)"
      and b: "(w' = word \<and> i = index v) \<or> (w' \<noteq> word \<and> bag_of_words v w' = Some i)"
      by (auto simp: bag split: if_splits)
    from a b show "w = w'"
      using old [of w i] old [of w' i] uniq [of w i w'] by auto
  qed
qed

lemma scan_words_inv: "vocabulary_inv v \<Longrightarrow> vocabulary_inv (foldl scan_word v ws)"
proof (induction ws arbitrary: v)
  case Nil
  then show ?case by simp
next
  case (Cons x xs)
  from Cons.prems have "vocabulary_inv (scan_word v x)" by (rule scan_word_inv)
  then have "vocabulary_inv (foldl scan_word (scan_word v x) xs)" by (rule Cons.IH)
  then show ?case by simp
qed

lemma scan_corpus_flat:
  "scan_corpus v cleaned = foldl scan_word v (concat (map snd cleaned))"
proof (induction cleaned arbitrary: v)
  case Nil
  show ?case by (simp add: scan_corpus_def)
next
  case (Cons p ps)
  have "scan_corpus v (p # ps) = scan_corpus (scan_text v (snd p)) ps"
    by (simp add: scan_corpus_def case_prod_beta)
  also have "\<dots> = foldl scan_word (scan_text v (snd p)) (concat (map snd ps))"
    by (rule Cons.IH)
  finally show ?case by (simp add: scan_text_def)
qed

lemma build_vocabulary_flat:
  "build_vocabulary cleaned = foldl scan_word initial_vocabulary (concat (map snd cleaned))"
  by (simp add: build_vocabulary_def scan_corpus_flat)

lemma build_vocabulary_inv: "vocabulary_inv (build_vocabulary cleaned)"
  unfolding build_vocabulary_flat using initial_vocabulary_inv by (rule scan_words_inv)

lemma build_vocabulary_append:
  "build_vocabulary (cleaned @ later) =
     foldl scan_word (build_vocabulary cleaned) (concat (map snd later))"
  by (simp add: build_vocabulary_flat)

lemma initial_vocabulary_dom: "dom (bag_of_words initial_vocabulary) = {rpad, lpad}"
  by (auto simp: initial_vocabulary_def split: if_splits)

subsection \<open>The sentinel ids\<close>

text \<open>
  C7. For every corpus, after the construction loop \<^verbatim>\<open>"<rpad>"\<close> has id 0 and \<^verbatim>\<open>"<lpad>"\<close>
  has id 1, and no other token has either id: a token with id 0 is \<^verbatim>\<open>"<rpad>"\<close> and a
  token with id 1 is \<^verbatim>\<open>"<lpad>"\<close>. Every state of the loop is the result for a shorter
  corpus, so the same holds throughout the scan.
\<close>

theorem sentinel_ids:
  "bag_of_words (build_vocabulary cleaned) rpad = Some 0 \<and>
   bag_of_words (build_vocabulary cleaned) lpad = Some 1 \<and>
   (bag_of_words (build_vocabulary cleaned) w = Some 0 \<longrightarrow> w = rpad) \<and>
   (bag_of_words (build_vocabulary cleaned) w' = Some 1 \<longrightarrow> w' = lpad)"
proof -
  let ?V = "bag_of_words (build_vocabulary cleaned)"
  have inv: "vocabulary_inv (build_vocabulary cleaned)" by (rule build_vocabulary_inv)
  then have r: "?V rpad = Some 0" and l: "?V lpad = Some 1"
    by (simp_all add: vocabulary_inv_def)
  from inv have uniq: "\<And>a b i. ?V a = Some i \<Longrightarrow> ?V b = Some i \<Longrightarrow> a = b"
    by (auto simp: vocabulary_inv_def)
  from uniq [OF _ r] uniq [OF _ l] r l show ?thesis by blast
qed

theorem sentinel_ids_witness:
  "bag_of_words (build_vocabulary [((str_of ''Shock''), [(str_of ''<lpad>''), (str_of ''deals''), (str_of ''<rpad>'')])]) rpad = Some 0 \<and>
   rpad = rpad \<and>
   bag_of_words (build_vocabulary [((str_of ''Shock''), [(str_of ''<lpad>''), (str_of ''deals''), (str_of ''<rpad>'')])]) lpad = Some 1 \<and>
   lpad = lpad"
  using sentinel_ids [of "[((str_of ''Shock''), [(str_of ''<lpad>''), (str_of ''deals''), (str_of ''<rpad>'')])]" rpad lpad]
  by simp

subsection \<open>Ids in order of first appearance\<close>

text \<open>
  C6. For every ordered corpus of tokenized texts: every token of the corpus has an id;
  no id belongs to two tokens; a token \<open>w2\<close> that the loop assigns an id (it is not a
  sentinel) gets an id above that of every other token \<open>w1\<close> that occurs before the first
  occurrence of \<open>w2\<close>, so the ids follow the order of first appearance strictly; an id
  that is assigned stays the same under every further step of the loop and every
  extension of the corpus; and two corpora with the same ordered token lists give the
  same dictionary.
\<close>

theorem vocabulary_ids:
  "(w \<in> set (concat (map snd cleaned)) \<longrightarrow>
      (\<exists>i. bag_of_words (build_vocabulary cleaned) w = Some i)) \<and>
   (bag_of_words (build_vocabulary cleaned) a = Some k \<and>
    bag_of_words (build_vocabulary cleaned) b = Some k \<longrightarrow> a = b) \<and>
   (concat (map snd cleaned) = pre @ w1 # post \<and> w2 \<notin> set pre \<and> w1 \<noteq> w2 \<and>
    w2 \<noteq> rpad \<and> w2 \<noteq> lpad \<and>
    bag_of_words (build_vocabulary cleaned) w1 = Some i1 \<and>
    bag_of_words (build_vocabulary cleaned) w2 = Some i2 \<longrightarrow> i1 < i2) \<and>
   (bag_of_words (build_vocabulary cleaned) u = Some j \<longrightarrow>
      bag_of_words (build_vocabulary (cleaned @ later)) u = Some j) \<and>
   (bag_of_words v u' = Some j' \<longrightarrow> bag_of_words (scan_word v word) u' = Some j') \<and>
   (map snd cleaned = map snd cleaned' \<longrightarrow>
      bag_of_words (build_vocabulary cleaned) = bag_of_words (build_vocabulary cleaned'))"
proof (intro conjI impI)
  let ?V = "bag_of_words (build_vocabulary cleaned)"
  have inv: "vocabulary_inv (build_vocabulary cleaned)" by (rule build_vocabulary_inv)
  {
    assume "w \<in> set (concat (map snd cleaned))"
    then have "w \<in> dom ?V" by (simp add: build_vocabulary_flat scan_words_dom)
    then show "\<exists>i. ?V w = Some i" by auto
  }
  {
    assume "?V a = Some k \<and> ?V b = Some k"
    with inv show "a = b" unfolding vocabulary_inv_def by blast
  }
  {
    assume h: "concat (map snd cleaned) = pre @ w1 # post \<and> w2 \<notin> set pre \<and> w1 \<noteq> w2 \<and>
      w2 \<noteq> rpad \<and> w2 \<noteq> lpad \<and> ?V w1 = Some i1 \<and> ?V w2 = Some i2"
    let ?p = "foldl scan_word initial_vocabulary pre"
    let ?q = "scan_word ?p w1"
    from h have fin: "build_vocabulary cleaned = foldl scan_word ?q post"
      by (simp add: build_vocabulary_flat)
    have "vocabulary_inv ?p" using initial_vocabulary_inv by (rule scan_words_inv)
    then have invq: "vocabulary_inv ?q" by (rule scan_word_inv)
    have "w1 \<in> dom (bag_of_words ?q)" by (simp add: scan_word_dom)
    then obtain m where m: "bag_of_words ?q w1 = Some m" by auto
    with invq have below: "m < index ?q" unfolding vocabulary_inv_def by blast
    from m have "bag_of_words (foldl scan_word ?q post) w1 = Some m" by (rule scan_words_keeps)
    with h fin have i1: "i1 = m" by simp
    from h have "w2 \<notin> set pre" "w2 \<noteq> w1" "w2 \<noteq> rpad" "w2 \<noteq> lpad"
      by auto
    then have "w2 \<notin> dom (bag_of_words ?q)"
      by (simp add: scan_word_dom scan_words_dom initial_vocabulary_dom)
    then have "bag_of_words ?q w2 = None" by auto
    moreover from h fin have "bag_of_words (foldl scan_word ?q post) w2 = Some i2" by simp
    ultimately have "index ?q \<le> i2" by (rule scan_words_new)
    with below i1 show "i1 < i2" by simp
  }
  {
    assume "?V u = Some j"
    then show "bag_of_words (build_vocabulary (cleaned @ later)) u = Some j"
      unfolding build_vocabulary_append by (rule scan_words_keeps)
  }
  {
    assume "bag_of_words v u' = Some j'"
    then show "bag_of_words (scan_word v word) u' = Some j'" by (rule scan_word_keeps)
  }
  {
    assume "map snd cleaned = map snd cleaned'"
    then show "?V = bag_of_words (build_vocabulary cleaned')"
      by (simp add: build_vocabulary_flat)
  }
qed

theorem vocabulary_ids_witness:
  "((str_of ''y'') \<in> set (concat (map snd [((str_of ''A''), [(str_of ''x''), (str_of ''y'')]), ((str_of ''B''), [(str_of ''y''), (str_of ''z'')])])) \<and>
    bag_of_words (build_vocabulary [((str_of ''A''), [(str_of ''x''), (str_of ''y'')]), ((str_of ''B''), [(str_of ''y''), (str_of ''z'')])]) (str_of ''x'') = Some 2 \<and>
    concat (map snd [((str_of ''A''), [(str_of ''x''), (str_of ''y'')]), ((str_of ''B''), [(str_of ''y''), (str_of ''z'')])]) = [(str_of ''x'')] @ (str_of ''y'') # [(str_of ''y''), (str_of ''z'')] \<and>
    (str_of ''z'') \<notin> set [(str_of ''x'')] \<and> (str_of ''y'') \<noteq> (str_of ''z'') \<and> (str_of ''z'') \<noteq> rpad \<and> (str_of ''z'') \<noteq> lpad \<and>
    bag_of_words (build_vocabulary [((str_of ''A''), [(str_of ''x''), (str_of ''y'')]), ((str_of ''B''), [(str_of ''y''), (str_of ''z'')])]) (str_of ''y'') = Some 3 \<and>
    bag_of_words (build_vocabulary [((str_of ''A''), [(str_of ''x''), (str_of ''y'')]), ((str_of ''B''), [(str_of ''y''), (str_of ''z'')])]) (str_of ''z'') = Some 4 \<and>
    bag_of_words initial_vocabulary rpad = Some 0 \<and>
    map snd [((str_of ''A''), [(str_of ''x''), (str_of ''y'')]), ((str_of ''B''), [(str_of ''y''), (str_of ''z'')])] =
      map snd [((str_of ''C''), [(str_of ''x''), (str_of ''y'')]), ((str_of ''D''), [(str_of ''y''), (str_of ''z'')])]) \<and>
   ((\<exists>i. bag_of_words (build_vocabulary [((str_of ''A''), [(str_of ''x''), (str_of ''y'')]), ((str_of ''B''), [(str_of ''y''), (str_of ''z'')])]) (str_of ''y'') = Some i) \<and>
    (3::int) < 4 \<and>
    bag_of_words (build_vocabulary ([((str_of ''A''), [(str_of ''x''), (str_of ''y'')]), ((str_of ''B''), [(str_of ''y''), (str_of ''z'')])] @ [((str_of ''E''), [(str_of ''q''), (str_of ''x'')])])) (str_of ''x'') = Some 2 \<and>
    bag_of_words (scan_word initial_vocabulary (str_of ''x'')) rpad = Some 0 \<and>
    bag_of_words (build_vocabulary [((str_of ''A''), [(str_of ''x''), (str_of ''y'')]), ((str_of ''B''), [(str_of ''y''), (str_of ''z'')])]) =
      bag_of_words (build_vocabulary [((str_of ''C''), [(str_of ''x''), (str_of ''y'')]), ((str_of ''D''), [(str_of ''y''), (str_of ''z'')])]))"
proof -
  have h: "(str_of ''y'') \<in> set (concat (map snd [((str_of ''A''), [(str_of ''x''), (str_of ''y'')]), ((str_of ''B''), [(str_of ''y''), (str_of ''z'')])])) \<and>
    bag_of_words (build_vocabulary [((str_of ''A''), [(str_of ''x''), (str_of ''y'')]), ((str_of ''B''), [(str_of ''y''), (str_of ''z'')])]) (str_of ''x'') = Some 2 \<and>
    concat (map snd [((str_of ''A''), [(str_of ''x''), (str_of ''y'')]), ((str_of ''B''), [(str_of ''y''), (str_of ''z'')])]) = [(str_of ''x'')] @ (str_of ''y'') # [(str_of ''y''), (str_of ''z'')] \<and>
    (str_of ''z'') \<notin> set [(str_of ''x'')] \<and> (str_of ''y'') \<noteq> (str_of ''z'') \<and> (str_of ''z'') \<noteq> rpad \<and> (str_of ''z'') \<noteq> lpad \<and>
    bag_of_words (build_vocabulary [((str_of ''A''), [(str_of ''x''), (str_of ''y'')]), ((str_of ''B''), [(str_of ''y''), (str_of ''z'')])]) (str_of ''y'') = Some 3 \<and>
    bag_of_words (build_vocabulary [((str_of ''A''), [(str_of ''x''), (str_of ''y'')]), ((str_of ''B''), [(str_of ''y''), (str_of ''z'')])]) (str_of ''z'') = Some 4 \<and>
    bag_of_words initial_vocabulary rpad = Some 0 \<and>
    map snd [((str_of ''A''), [(str_of ''x''), (str_of ''y'')]), ((str_of ''B''), [(str_of ''y''), (str_of ''z'')])] =
      map snd [((str_of ''C''), [(str_of ''x''), (str_of ''y'')]), ((str_of ''D''), [(str_of ''y''), (str_of ''z'')])]"
    by (simp add: build_vocabulary_def scan_corpus_def scan_text_def scan_word_def
        initial_vocabulary_def rpad_def lpad_def str_of_def)
  from h vocabulary_ids [of "(str_of ''y'')" "[((str_of ''A''), [(str_of ''x''), (str_of ''y'')]), ((str_of ''B''), [(str_of ''y''), (str_of ''z'')])]"
      "(str_of ''x'')" 2 "(str_of ''x'')" "[(str_of ''x'')]" "(str_of ''y'')" "[(str_of ''y''), (str_of ''z'')]" "(str_of ''z'')" 3 4 "(str_of ''x'')" 2
      "[((str_of ''E''), [(str_of ''q''), (str_of ''x'')])]" initial_vocabulary rpad 0 "(str_of ''x'')"
      "[((str_of ''C''), [(str_of ''x''), (str_of ''y'')]), ((str_of ''D''), [(str_of ''y''), (str_of ''z'')])]"]
  show ?thesis by blast
qed

subsection \<open>Looking tokens up\<close>

lemma lookup_all_present:
  "\<forall>w \<in> set ws. d w \<noteq> None \<Longrightarrow> lookup_all d ws = Inr (map (\<lambda>w. the (d w)) ws)"
  by (induction ws) auto

lemma lookup_all_error:
  "lookup_all d ws = Inl e \<Longrightarrow> \<exists>w \<in> set ws. d w = None \<and> e = KeyError w"
proof (induction ws arbitrary: e)
  case Nil
  then show ?case by simp
next
  case (Cons x xs)
  show ?case
  proof (cases "d x")
    case None
    with Cons.prems show ?thesis by simp
  next
    case (Some i)
    with Cons.prems have "lookup_all d xs = Inl e" by (simp split: sum.splits)
    then have "\<exists>w \<in> set xs. d w = None \<and> e = KeyError w" by (rule Cons.IH)
    then show ?thesis by auto
  qed
qed

lemma lookup_all_absent:
  "\<exists>w \<in> set ws. d w = None \<Longrightarrow> \<exists>e. lookup_all d ws = Inl e"
proof (cases "lookup_all d ws")
  case (Inl e)
  then show ?thesis by blast
next
  case (Inr ids)
  assume "\<exists>w \<in> set ws. d w = None"
  then obtain w where w: "w \<in> set ws" "d w = None" by blast
  have "lookup_all d ws = Inr ids \<Longrightarrow> w \<in> set ws \<Longrightarrow> d w \<noteq> None" for ids
    by (induction ws arbitrary: ids) (auto split: option.splits sum.splits)
  with Inr w show ?thesis by blast
qed

text \<open>
  C2. Let the dictionary hold \<^verbatim>\<open>"<lpad>"\<close> with id 1 and \<^verbatim>\<open>"<rpad>"\<close> with id 0, as every
  dictionary built by the construction loop does. For every text \<open>t\<close>, \<^verbatim>\<open>vectorize(t)\<close>
  returns 1, then the ids of the tokens of \<^verbatim>\<open>clean_oracle_text(t)\<close> in order, then 0, when
  every token is a key; it fails exactly when some token is not a key, and every failure
  is the \<^verbatim>\<open>KeyError\<close> of such a token. With the dictionary
  \<^verbatim>\<open>{"<rpad>":0, "<lpad>":1, "destroy":2, "target":3, "creature":4}\<close>,
  \<^verbatim>\<open>vectorize("Destroy target creature.")\<close> is \<^verbatim>\<open>[1, 2, 3, 4, 0]\<close>.
\<close>

theorem vectorize_contract:
  assumes "d lpad = Some 1" and "d rpad = Some 0"
  shows "((\<forall>w \<in> set (clean_oracle_text t). d w \<noteq> None) \<longrightarrow>
            vectorize d t = Inr ([1] @ map (\<lambda>w. the (d w)) (clean_oracle_text t) @ [0])) \<and>
         ((\<exists>err. vectorize d t = Inl err) \<longleftrightarrow> (\<exists>w \<in> set (clean_oracle_text t). d w = None)) \<and>
         (vectorize d t = Inl e \<longrightarrow> (\<exists>w \<in> set (clean_oracle_text t). d w = None \<and> e = KeyError w)) \<and>
         vectorize [rpad \<mapsto> 0, lpad \<mapsto> 1, (str_of ''destroy'') \<mapsto> 2, (str_of ''target'') \<mapsto> 3, (str_of ''creature'') \<mapsto> 4]
           (str_of ''Destroy target creature.'') = Inr [1, 2, 3, 4, 0]"
proof (intro conjI impI)
  let ?ws = "[lpad] @ clean_oracle_text t @ [rpad]"
  have absent: "(\<exists>w \<in> set ?ws. d w = None) \<longleftrightarrow> (\<exists>w \<in> set (clean_oracle_text t). d w = None)"
    using assms by auto
  {
    assume "\<forall>w \<in> set (clean_oracle_text t). d w \<noteq> None"
    with assms have "\<forall>w \<in> set ?ws. d w \<noteq> None" by auto
    then have "lookup_all d ?ws = Inr (map (\<lambda>w. the (d w)) ?ws)" by (rule lookup_all_present)
    with assms
    show "vectorize d t = Inr ([1] @ map (\<lambda>w. the (d w)) (clean_oracle_text t) @ [0])"
      by (simp add: vectorize_def)
  }
  {
    assume "vectorize d t = Inl e"
    then have "lookup_all d ?ws = Inl e" by (simp add: vectorize_def)
    then have "\<exists>w \<in> set ?ws. d w = None \<and> e = KeyError w" by (rule lookup_all_error)
    with assms show "\<exists>w \<in> set (clean_oracle_text t). d w = None \<and> e = KeyError w" by auto
  }
  show "(\<exists>err. vectorize d t = Inl err) \<longleftrightarrow> (\<exists>w \<in> set (clean_oracle_text t). d w = None)"
  proof
    assume "\<exists>err. vectorize d t = Inl err"
    then obtain err where "lookup_all d ?ws = Inl err" by (auto simp: vectorize_def)
    then have "\<exists>w \<in> set ?ws. d w = None \<and> err = KeyError w" by (rule lookup_all_error)
    then have "\<exists>w \<in> set ?ws. d w = None" by blast
    with absent show "\<exists>w \<in> set (clean_oracle_text t). d w = None" by simp
  next
    assume "\<exists>w \<in> set (clean_oracle_text t). d w = None"
    with absent have "\<exists>w \<in> set ?ws. d w = None" by simp
    then have "\<exists>err. lookup_all d ?ws = Inl err" by (rule lookup_all_absent)
    then show "\<exists>err. vectorize d t = Inl err" by (simp add: vectorize_def)
  qed
  have "clean_oracle_text (str_of ''Destroy target creature.'') = [(str_of ''destroy''), (str_of ''target''), (str_of ''creature'')]"
    by (simp add: pipeline_eval latin1_eval)
  then show "vectorize [rpad \<mapsto> 0, lpad \<mapsto> 1, (str_of ''destroy'') \<mapsto> 2, (str_of ''target'') \<mapsto> 3, (str_of ''creature'') \<mapsto> 4]
           (str_of ''Destroy target creature.'') = Inr [1, 2, 3, 4, 0]"
    by (simp add: vectorize_def rpad_def lpad_def str_of_def)
qed

theorem vectorize_contract_witness:
  "bag_of_words (build_vocabulary [((str_of ''Murder''), [(str_of ''destroy''), (str_of ''target''), (str_of ''creature'')])]) lpad = Some 1 \<and>
   bag_of_words (build_vocabulary [((str_of ''Murder''), [(str_of ''destroy''), (str_of ''target''), (str_of ''creature'')])]) rpad = Some 0 \<and>
   list_all (\<lambda>w. bag_of_words
       (build_vocabulary [((str_of ''Murder''), [(str_of ''destroy''), (str_of ''target''), (str_of ''creature'')])]) w \<noteq> None)
     (clean_oracle_text (str_of ''Destroy target creature.'')) \<and>
   vectorize (bag_of_words (build_vocabulary [((str_of ''Murder''), [(str_of ''destroy''), (str_of ''target''), (str_of ''creature'')])]))
     (str_of ''Destroy target creature.'') =
   Inr ([1] @ map (\<lambda>w. the (bag_of_words
          (build_vocabulary [((str_of ''Murder''), [(str_of ''destroy''), (str_of ''target''), (str_of ''creature'')])]) w))
        (clean_oracle_text (str_of ''Destroy target creature.'')) @ [0]) \<and>
   (\<exists>w \<in> set (clean_oracle_text (str_of ''Destroy target land.'')).
      bag_of_words (build_vocabulary [((str_of ''Murder''), [(str_of ''destroy''), (str_of ''target''), (str_of ''creature'')])]) w = None) \<and>
   (\<exists>err. vectorize (bag_of_words (build_vocabulary [((str_of ''Murder''), [(str_of ''destroy''), (str_of ''target''), (str_of ''creature'')])]))
     (str_of ''Destroy target land.'') = Inl err)"
proof -
  let ?d = "bag_of_words (build_vocabulary [((str_of ''Murder''), [(str_of ''destroy''), (str_of ''target''), (str_of ''creature'')])])"
  have l: "?d lpad = Some 1" and r: "?d rpad = Some 0"
    by (simp_all add: build_vocabulary_def scan_corpus_def scan_text_def scan_word_def
        initial_vocabulary_def rpad_def lpad_def str_of_def)
  have c1: "clean_oracle_text (str_of ''Destroy target creature.'') = [(str_of ''destroy''), (str_of ''target''), (str_of ''creature'')]"
    by (simp add: pipeline_eval latin1_eval)
  have c2: "clean_oracle_text (str_of ''Destroy target land.'') = [(str_of ''destroy''), (str_of ''target''), (str_of ''land'')]"
    by (simp add: pipeline_eval latin1_eval)
  have p: "\<forall>w \<in> set (clean_oracle_text (str_of ''Destroy target creature.'')). ?d w \<noteq> None"
    unfolding c1
    by (simp add: build_vocabulary_def scan_corpus_def scan_text_def scan_word_def
        initial_vocabulary_def rpad_def lpad_def str_of_def)
  then have p': "list_all (\<lambda>w. ?d w \<noteq> None) (clean_oracle_text (str_of ''Destroy target creature.''))"
    by (simp only: list_all_iff)
  have a: "\<exists>w \<in> set (clean_oracle_text (str_of ''Destroy target land.'')). ?d w = None"
    unfolding c2
    by (simp add: build_vocabulary_def scan_corpus_def scan_text_def scan_word_def
        initial_vocabulary_def rpad_def lpad_def str_of_def)
  from vectorize_contract [OF l r, of "(str_of ''Destroy target creature.'')"] p
  have ok: "vectorize ?d (str_of ''Destroy target creature.'') =
      Inr ([1] @ map (\<lambda>w. the (?d w)) (clean_oracle_text (str_of ''Destroy target creature.'')) @ [0])"
    by blast
  from vectorize_contract [OF l r, of "(str_of ''Destroy target land.'')"] a
  have bad: "\<exists>err. vectorize ?d (str_of ''Destroy target land.'') = Inl err"
    by blast
  from l r p' ok a bad show ?thesis by blast
qed

end
